theory Spec2Isabelle
  imports Main "HOL-Library.Char_ord" "HOL-Library.List_Lexorder" "HOL-Library.Product_Lexorder"
begin

section \<open>Strings and paths\<close>

text \<open>
  Python strings are modelled as \<open>string\<close> (lists of 8-bit characters, a non-ASCII
  character being its UTF-8 bytes). Lists of strings are compared lexicographically
  (\<open>List_Lexorder\<close> over \<open>Char_ord\<close>), which is the order of Python's \<open>sorted\<close> and
  \<open>list.sort\<close> on \<open>str\<close>. \<open>sort_key\<close> is a stable sort, as Python's is.
\<close>

definition nl :: string where
  "nl = [CHR 0x0A]"

text \<open>
  \<open>str.lower()\<close> follows the Unicode tables. The functions that call it take it as the
  parameter \<open>lw\<close>, and what is proved of them holds for every such function. The
  examples pass \<open>lower\<close>, which lowers the ASCII letters and so agrees with
  \<open>str.lower()\<close> on their names.
\<close>

definition lower_char :: "char \<Rightarrow> char" where
  "lower_char c = (if CHR ''A'' \<le> c \<and> c \<le> CHR ''Z'' then char_of (of_char c + (32::nat)) else c)"

definition lower :: "string \<Rightarrow> string" where
  "lower s = map lower_char s"

text \<open>\<open>str(n)\<close> for a non-negative integer: its decimal digits.\<close>

definition digit_char :: "nat \<Rightarrow> char" where
  "digit_char d = char_of (48 + d)"

fun str_nat :: "nat \<Rightarrow> string" where
  "str_nat n = (if n < 10 then [digit_char n] else str_nat (n div 10) @ [digit_char (n mod 10)])"

declare str_nat.simps [simp del]

text \<open>\<open>s.startswith(p)\<close> and the substring test \<open>p in s\<close>.\<close>

fun startswith :: "string \<Rightarrow> string \<Rightarrow> bool" where
  "startswith s [] = True"
| "startswith [] (p # ps) = False"
| "startswith (c # cs) (p # ps) = (c = p \<and> startswith cs ps)"

fun str_in :: "string \<Rightarrow> string \<Rightarrow> bool" where
  "str_in p [] = (p = [])"
| "str_in p (c # cs) = (startswith (c # cs) p \<or> str_in p cs)"

text \<open>\<open>s.split('/')\<close> and \<open>'/'.join(parts)\<close>.\<close>

fun split_sep :: "string \<Rightarrow> string list" where
  "split_sep [] = [[]]"
| "split_sep (c # cs) =
     (if c = CHR ''/'' then [] # split_sep cs
      else (case split_sep cs of [] \<Rightarrow> [[c]] | w # ws \<Rightarrow> (c # w) # ws))"

fun join_sep :: "string list \<Rightarrow> string" where
  "join_sep [] = []"
| "join_sep [p] = p"
| "join_sep (p # q # ps) = p @ ''/'' @ join_sep (q # ps)"

text \<open>
  \<open>os.path.join(a, b)\<close> on POSIX paths: an absolute \<open>b\<close> replaces \<open>a\<close>; otherwise one
  separator stands between the two unless \<open>a\<close> is empty or already ends with one.
\<close>

definition path_join :: "string \<Rightarrow> string \<Rightarrow> string" where
  "path_join a b =
     (if startswith b ''/'' then b
      else if a = [] \<or> last a = CHR ''/'' then a @ b
      else a @ ''/'' @ b)"

text \<open>
  \<open>os.path.normpath\<close> of \<open>posixpath\<close>: empty and \<open>.\<close> components go, a \<open>..\<close>
  takes the component before it away (at the root it goes itself), and exactly two
  leading separators are kept.
\<close>

definition initial_slashes :: "string \<Rightarrow> nat" where
  "initial_slashes path =
     (if startswith path ''//'' \<and> \<not> startswith path ''///'' then 2
      else if startswith path ''/'' then 1 else 0)"

fun norm_comps :: "nat \<Rightarrow> string list \<Rightarrow> string list \<Rightarrow> string list" where
  "norm_comps i new_comps [] = new_comps"
| "norm_comps i new_comps (part # parts) =
     (if part = [] \<or> part = ''.'' then norm_comps i new_comps parts
      else if part \<noteq> ''..'' \<or> (i = 0 \<and> new_comps = []) \<or>
              (new_comps \<noteq> [] \<and> last new_comps = ''..'')
           then norm_comps i (new_comps @ [part]) parts
      else if new_comps \<noteq> [] then norm_comps i (butlast new_comps) parts
      else norm_comps i new_comps parts)"

definition normpath :: "string \<Rightarrow> string" where
  "normpath path =
     (if path = [] then ''.''
      else (let p = replicate (initial_slashes path) CHR ''/'' @
                    join_sep (norm_comps (initial_slashes path) [] (split_sep path))
            in if p = [] then ''.'' else p))"

text \<open>\<open>os.path.abspath\<close>, for the working directory \<open>cwd\<close>.\<close>

definition abspath :: "string \<Rightarrow> string \<Rightarrow> string" where
  "abspath cwd path = normpath (if startswith path ''/'' then path else path_join cwd path)"

text \<open>
  \<open>os.path.relpath(path, start)\<close>, for the working directory \<open>cwd\<close> and a \<open>path\<close>
  that is not empty (the scripts pass a joined path or a path found by \<open>glob\<close>): both
  are made absolute, the common leading components go, and one \<open>..\<close> stands for each
  component of \<open>start\<close> that is left.
\<close>

fun common_prefix :: "'a list \<Rightarrow> 'a list \<Rightarrow> 'a list" where
  "common_prefix (x # xs) (y # ys) = (if x = y then x # common_prefix xs ys else [])"
| "common_prefix xs ys = []"

definition relpath :: "string \<Rightarrow> string \<Rightarrow> string \<Rightarrow> string" where
  "relpath cwd path start =
     (let start_list = filter (\<lambda>x. x \<noteq> []) (split_sep (abspath cwd start));
          path_list = filter (\<lambda>x. x \<noteq> []) (split_sep (abspath cwd path));
          i = length (common_prefix start_list path_list);
          rel_list = replicate (length start_list - i) ''..'' @ drop i path_list
      in if rel_list = [] then ''.'' else join_sep rel_list)"

text \<open>
  \<open>str(root / p)\<close> of \<open>pathlib\<close>, for \<open>root\<close> the string of a path object: an
  absolute \<open>p\<close> replaces \<open>root\<close>; empty and \<open>.\<close> components go, \<open>..\<close> stays, and
  exactly two leading separators are kept.
\<close>

definition pure_path :: "string \<Rightarrow> string" where
  "pure_path s =
     (let p = replicate (initial_slashes s) CHR ''/'' @
              join_sep (filter (\<lambda>x. x \<noteq> [] \<and> x \<noteq> ''.'') (split_sep s))
      in if p = [] then ''.'' else p)"

definition path_div :: "string \<Rightarrow> string \<Rightarrow> string" where
  "path_div root p = pure_path (if startswith p ''/'' then p else root @ ''/'' @ p)"

text \<open>\<open>os.path.basename\<close>: what follows the last separator.\<close>

fun basename :: "string \<Rightarrow> string" where
  "basename [] = []"
| "basename (c # cs) = (if CHR ''/'' \<in> set cs then basename cs else if c = CHR ''/'' then cs else c # cs)"

text \<open>\<open>os.path.splitext(file)[1]\<close>: from the last dot of the name on, leading dots apart.\<close>

fun strip_dots :: "string \<Rightarrow> string" where
  "strip_dots [] = []"
| "strip_dots (c # cs) = (if c = CHR ''.'' then strip_dots cs else c # cs)"

fun ext_of :: "string \<Rightarrow> string" where
  "ext_of [] = []"
| "ext_of (c # cs) =
     (if CHR ''.'' \<in> set cs then ext_of cs
      else if c = CHR ''.'' then c # cs else [])"

definition splitext_ext :: "string \<Rightarrow> string" where
  "splitext_ext file = ext_of (strip_dots file)"

text \<open>
  \<open>f.readlines()\<close> and iteration over a text file: the text cut after every newline;
  a last piece without a newline is a line too.
\<close>

fun readlines :: "string \<Rightarrow> string list" where
  "readlines [] = []"
| "readlines (c # cs) =
     (if c = CHR 0x0A then [c] # readlines cs
      else (case readlines cs of [] \<Rightarrow> [[c]] | l # ls \<Rightarrow> (c # l) # ls))"

text \<open>\<open>content.count('\n')\<close>.\<close>

definition count_nl :: "string \<Rightarrow> nat" where
  "count_nl s = length (filter (\<lambda>c. c = CHR 0x0A) s)"

section \<open>The file system\<close>

text \<open>An exception that leaves a function: the class and the path or entry it names.\<close>

datatype error = PermissionError string

text \<open>
  A directory tree as the scripts see it.
  \<^item> \<open>File\<close> carries what opening the file and reading it as UTF-8 text gives: \<open>Inr\<close>
    the text (newlines translated), or \<open>Inl\<close> the message of the exception raised.
  \<^item> \<open>Dir\<close> carries whether the directory can be listed, and its entries in the order
    the operating system lists them (\<open>Path.iterdir\<close>, \<open>os.listdir\<close>, \<open>os.scandir\<close>).
  \<^item> \<open>Locked\<close> is a directory that can be listed but not searched (mode \<open>r--\<close>): its
    entries have names and kinds, but none of them can be examined (\<open>stat\<close>), opened
    or listed; the attempt gives \<open>EACCES\<close>.
  \<^item> \<open>Link\<close> is a symbolic link: its own name and the node it leads to.
\<close>

datatype node =
    File string "string + string"
  | Dir string bool "node list"
  | Locked string "node list"
  | Link string node

fun name :: "node \<Rightarrow> string" where
  "name (File n r) = n"
| "name (Dir n ok cs) = n"
| "name (Locked n es) = n"
| "name (Link n t) = n"

text \<open>\<open>is_dir\<close> follows links, as \<open>Path.is_dir\<close>, \<open>os.path.isdir\<close> and \<open>DirEntry.is_dir\<close> do.\<close>

fun is_dir :: "node \<Rightarrow> bool" where
  "is_dir (File n r) = False"
| "is_dir (Dir n ok cs) = True"
| "is_dir (Locked n es) = True"
| "is_dir (Link n t) = is_dir t"

fun is_link :: "node \<Rightarrow> bool" where
  "is_link (Link n t) = True"
| "is_link (File n r) = False"
| "is_link (Dir n ok cs) = False"
| "is_link (Locked n es) = False"

text \<open>Opening a node and reading it as text; a link is opened through.\<close>

fun read_result :: "node \<Rightarrow> string + string" where
  "read_result (File n r) = r"
| "read_result (Link n t) = read_result t"
| "read_result (Dir n ok cs) = Inl ''Is a directory''"
| "read_result (Locked n es) = Inl ''Is a directory''"

text \<open>
  Inside a \<open>Locked\<close> directory \<open>os.scandir\<close> knows an entry's kind from the listing
  alone; a link there cannot be followed and counts as no directory. An entry that is no
  directory is listed as a file that cannot be opened.
\<close>

fun listed_dir :: "node \<Rightarrow> bool" where
  "listed_dir (Dir n ok cs) = True"
| "listed_dir (Locked n es) = True"
| "listed_dir (File n r) = False"
| "listed_dir (Link n t) = False"

definition denied :: "node \<Rightarrow> node" where
  "denied e = File (name e) (Inl ''Permission denied'')"

text \<open>
  What the scripts ask of the file system besides walking a tree: the working directory;
  what examining a path gives (\<open>stat\<close>: the node there, nothing there, or \<open>EACCES\<close>
  because a directory on the way cannot be searched); the paths \<open>glob.glob\<close> returns
  for a pattern, in the order it returns them; and what opening a path and reading it as
  UTF-8 text gives, strictly or with \<open>errors='ignore'\<close>.
\<close>

datatype stat = Found node | Missing | Denied

record fsys =
  fs_cwd :: string
  fs_stat :: "string \<Rightarrow> stat"
  fs_glob :: "string \<Rightarrow> string list"
  fs_read :: "string \<Rightarrow> string + string"
  fs_read_ignore :: "string \<Rightarrow> string + string"

text \<open>\<open>os.path.exists\<close> and \<open>os.path.isdir\<close>: any error of \<open>stat\<close> gives \<open>False\<close>.\<close>

definition fs_exists :: "fsys \<Rightarrow> string \<Rightarrow> bool" where
  "fs_exists fs p = (case fs_stat fs p of Found n \<Rightarrow> True | Missing \<Rightarrow> False | Denied \<Rightarrow> False)"

definition fs_isdir :: "fsys \<Rightarrow> string \<Rightarrow> bool" where
  "fs_isdir fs p = (case fs_stat fs p of Found n \<Rightarrow> is_dir n | Missing \<Rightarrow> False | Denied \<Rightarrow> False)"

text \<open>
  \<open>Path.exists()\<close>: \<open>False\<close> when nothing is there; \<open>EACCES\<close> is raised again as
  \<open>PermissionError\<close>.
\<close>

definition path_exists :: "fsys \<Rightarrow> string \<Rightarrow> error + bool" where
  "path_exists fs p =
     (case fs_stat fs p of
        Found n \<Rightarrow> Inr True
      | Missing \<Rightarrow> Inr False
      | Denied \<Rightarrow> Inl (PermissionError p))"

text \<open>
  A loop whose turns each give a list or raise: the first exception leaves the loop,
  otherwise the lists are appended in order.
\<close>

fun collect :: "(error + 'a list) list \<Rightarrow> error + 'a list" where
  "collect [] = Inr []"
| "collect (Inl e # rs) = Inl e"
| "collect (Inr xs # rs) = (case collect rs of Inl e \<Rightarrow> Inl e | Inr ys \<Rightarrow> Inr (xs @ ys))"

lemma size_child: "x \<in> set cs \<Longrightarrow> size x < Suc (size_list size cs)"
  by (induction cs) auto

lemma enumerate_mem: "(i, x) \<in> set (enumerate n xs) \<Longrightarrow> x \<in> set xs"
  by (auto simp: enumerate_eq_zip dest: in_set_zipE)

section \<open>extract\_code.py\<close>

text \<open>The box-drawing prefixes, as UTF-8 bytes.\<close>

definition corner :: string where
  "corner = [CHR 0xE2, CHR 0x94, CHR 0x94, CHR 0xE2, CHR 0x94, CHR 0x80, CHR 0xE2, CHR 0x94, CHR 0x80, CHR '' '']"

definition branch :: string where
  "branch = [CHR 0xE2, CHR 0x94, CHR 0x9C, CHR 0xE2, CHR 0x94, CHR 0x80, CHR 0xE2, CHR 0x94, CHR 0x80, CHR '' '']"

definition blank :: string where
  "blank = ''    ''"

definition vertical :: string where
  "vertical = [CHR 0xE2, CHR 0x94, CHR 0x82, CHR '' '', CHR '' '', CHR '' '']"

text \<open>\<open>items.sort(key=lambda x: (not x.is_dir(), x.name.lower()))\<close>\<close>

definition sort_items :: "(string \<Rightarrow> string) \<Rightarrow> node list \<Rightarrow> node list" where
  "sort_items lw items = sort_key (\<lambda>x. (\<not> is_dir x, lw (name x))) items"

lemma set_sort_items [simp]: "set (sort_items lw cs) = set cs"
  by (simp add: sort_items_def)

lemma length_sort_items [simp]: "length (sort_items lw cs) = length cs"
  by (simp add: sort_items_def)

text \<open>
  \<open>generate_directory_tree(directory, prefix, exclude_dirs)\<close> of extract\_code.py.
  \<^item> \<open>iterdir\<close> raises on a file and on a directory that cannot be listed; the
    \<open>except\<close> returns the empty list. A link is listed through.
  \<^item> The sort key calls \<open>x.is_dir()\<close> on every item, outside the \<open>try\<close>. In a
    \<open>Locked\<close> directory the call raises \<open>PermissionError\<close> for the first item, and
    the exception leaves the function; the error names that item.
  \<^item> The loop runs over the sorted items with their index in that list; \<open>is_last\<close>
    compares the index with the length of the whole sorted list. An exception of a
    recursive call leaves the loop.
\<close>

function (sequential) generate_directory_tree ::
  "(string \<Rightarrow> string) \<Rightarrow> node \<Rightarrow> string \<Rightarrow> string set \<Rightarrow> error + string list" where
  "generate_directory_tree lw (File n r) prefix exclude_dirs = Inr []"
| "generate_directory_tree lw (Link n t) prefix exclude_dirs =
     generate_directory_tree lw t prefix exclude_dirs"
| "generate_directory_tree lw (Locked n es) prefix exclude_dirs =
     (if es = [] then Inr [] else Inl (PermissionError (name (hd es))))"
| "generate_directory_tree lw (Dir n ok cs) prefix exclude_dirs =
     (if \<not> ok then Inr []
      else collect (map (\<lambda>(index, item).
             if name item \<in> exclude_dirs then Inr []
             else (let is_last = (int index = int (length (sort_items lw cs)) - 1);
                       current_prefix = (if is_last then corner else branch);
                       next_prefix = (if is_last then blank else vertical)
                   in case (if is_dir item
                            then generate_directory_tree lw item (prefix @ next_prefix) exclude_dirs
                            else Inr [])
                      of Inl e \<Rightarrow> Inl e
                       | Inr below \<Rightarrow> Inr ((prefix @ current_prefix @ name item) # below)))
           (enumerate 0 (sort_items lw cs))))"
  by pat_completeness auto
termination
proof (relation "measure (\<lambda>(lw, n, p, e). size n)", goal_cases)
  case 1
  show ?case by simp
next
  case (2 lw n t prefix exclude_dirs)
  show ?case by simp
next
  case (3 lw n ok cs prefix exclude_dirs x xa y xb xc xd)
  then have "y \<in> set (sort_items lw cs)" by (auto dest: enumerate_mem)
  then have "y \<in> set cs" by simp
  then show ?case by (simp add: size_child)
qed

declare generate_directory_tree.simps [simp del]

text \<open>
  \<open>os.walk(top)\<close>, top down, with the loop body's pruning \<open>dirs[:] = [d for d in dirs
  if d not in exclude_dirs]\<close> applied before it descends: one triple (root, names of the
  kept directories, files) per directory visited, the files as nodes, so that the loop
  body can read them. Errors of \<open>scandir\<close> are swallowed (\<open>onerror\<close> is not given):
  a top that is a file, and a directory that cannot be listed, yield nothing. A link to a
  directory is named among the directories and not descended into (\<open>followlinks\<close> is
  false); a top that is a link is walked through. A \<open>Locked\<close> directory yields its
  triple and nothing below it. The order is that of the listing.
\<close>

function (sequential) os_walk ::
  "string set \<Rightarrow> string \<Rightarrow> node \<Rightarrow> (string \<times> string list \<times> node list) list" where
  "os_walk exclude_dirs root (File n r) = []"
| "os_walk exclude_dirs root (Link n t) = os_walk exclude_dirs root t"
| "os_walk exclude_dirs root (Locked n es) =
     [(root,
       map name (filter (\<lambda>d. name d \<notin> exclude_dirs) (filter listed_dir es)),
       map denied (filter (\<lambda>f. \<not> listed_dir f) es))]"
| "os_walk exclude_dirs root (Dir n ok cs) =
     (if \<not> ok then []
      else (root,
            map name (filter (\<lambda>d. name d \<notin> exclude_dirs) (filter is_dir cs)),
            filter (\<lambda>f. \<not> is_dir f) cs) #
           concat (map (\<lambda>d. os_walk exclude_dirs (path_join root (name d)) d)
                       (filter (\<lambda>d. \<not> is_link d)
                          (filter (\<lambda>d. name d \<notin> exclude_dirs) (filter is_dir cs)))))"
  by pat_completeness auto
termination
  by (relation "measure (\<lambda>(e, r, n). size n)") (auto simp: size_child)

declare os_walk.simps [simp del]

text \<open>The extensions and directory names fixed in \<open>extract_code_for_directory\<close>.\<close>

definition code_extensions :: "string set" where
  "code_extensions = {''.ts'', ''.tsx'', ''.js'', ''.jsx'', ''.py'', ''.json'',
     ''.css'', ''.scss'', ''.less'', ''.html'', ''.md'',
     ''.sql'', ''.prisma'', ''.env'', ''.yml'', ''.yaml''}"

definition exclude_dirs :: "string set" where
  "exclude_dirs = {''node_modules'', ''dist'', ''.git'', ''__pycache__'',
     ''build'', ''coverage'', ''.next'', ''.cache''}"

text \<open>
  The accumulators of \<open>extract_code_for_directory\<close>, and the dictionary it returns
  (\<open>content\<close> is \<open>''.join(code_content)\<close>).
\<close>

record acc =
  code_content :: "string list"
  total_files :: nat
  total_lines :: nat

record code_info =
  ci_content :: string
  ci_total_files :: nat
  ci_total_lines :: nat
  ci_tree :: "string list"

text \<open>
  The body of \<open>for file in files\<close>: a file whose extension is in the set is read; when
  the read succeeds it is counted and its section is appended; when it raises, the
  \<open>except\<close> prints a message and nothing else changes.
\<close>

definition file_section :: "string \<Rightarrow> nat \<Rightarrow> string \<Rightarrow> string" where
  "file_section relative_path line_count text =
     (nl @ replicate 80 CHR ''='' @ nl) @
     (''File: '' @ relative_path @ nl @ ''Lines: '' @ str_nat line_count @ nl @
      replicate 80 CHR ''-'' @ nl) @
     text"

definition process_file ::
  "(string \<Rightarrow> string) \<Rightarrow> string set \<Rightarrow> string \<Rightarrow> string \<Rightarrow> string \<Rightarrow> acc \<Rightarrow> node \<Rightarrow> acc" where
  "process_file lw exts cwd dir_path root a f =
     (if lw (splitext_ext (name f)) \<in> exts
      then (case read_result f of
              Inl e \<Rightarrow> a
            | Inr text \<Rightarrow>
                a\<lparr>code_content := code_content a @
                     [file_section (relpath cwd (path_join root (name f)) dir_path)
                        (length (readlines text)) (concat (readlines text))],
                  total_files := total_files a + 1,
                  total_lines := total_lines a + length (readlines text)\<rparr>)
      else a)"

definition process_walk ::
  "(string \<Rightarrow> string) \<Rightarrow> string set \<Rightarrow> string \<Rightarrow> string \<Rightarrow> acc \<Rightarrow>
   (string \<times> string list \<times> node list) list \<Rightarrow> acc" where
  "process_walk lw exts cwd dir_path a triples =
     fold (\<lambda>(root, dirs, files) a'.
             fold (\<lambda>f a''. process_file lw exts cwd dir_path root a'' f) files a')
          triples a"

text \<open>
  \<open>extract_code_for_directory(base_dir, target_dir)\<close>. \<open>Inr None\<close> is the function's
  \<open>None\<close>; \<open>Inl\<close> is an exception that leaves the function: the tree is built
  outside any \<open>try\<close>, before the walk. The lowering function, the extension set and the
  excluded names are parameters here; the script fixes the two sets to
  \<open>code_extensions\<close> and \<open>exclude_dirs\<close>.
\<close>

definition extract_code_for_directory_with ::
  "(string \<Rightarrow> string) \<Rightarrow> string set \<Rightarrow> string set \<Rightarrow> fsys \<Rightarrow> string \<Rightarrow> string \<Rightarrow>
   error + code_info option" where
  "extract_code_for_directory_with lw exts excl fs base_dir target_dir =
     (let dir_path = path_join base_dir target_dir in
      case fs_stat fs dir_path of
        Missing \<Rightarrow> Inr None
      | Denied \<Rightarrow> Inr None
      | Found d \<Rightarrow>
          (case generate_directory_tree lw d [] excl of
             Inl e \<Rightarrow> Inl e
           | Inr tree \<Rightarrow>
               (let a = process_walk lw exts (fs_cwd fs) dir_path
                          \<lparr>code_content = [], total_files = 0, total_lines = 0\<rparr>
                          (os_walk excl dir_path d)
                in if total_files a = 0 then Inr None
                   else Inr (Some \<lparr>ci_content = concat (code_content a),
                                   ci_total_files = total_files a,
                                   ci_total_lines = total_lines a,
                                   ci_tree = tree\<rparr>))))"

definition extract_code_for_directory :: "fsys \<Rightarrow> string \<Rightarrow> string \<Rightarrow> error + code_info option" where
  "extract_code_for_directory fs base_dir target_dir =
     extract_code_for_directory_with lower code_extensions exclude_dirs fs base_dir target_dir"

section \<open>extract\_db\_code.py\<close>

definition EXCLUDE_PATTERNS :: "string list" where
  "EXCLUDE_PATTERNS = [''node_modules'', ''dist'', ''.git'']"

definition is_excluded :: "string \<Rightarrow> bool" where
  "is_excluded file_path = list_ex (\<lambda>pattern. str_in pattern file_path) EXCLUDE_PATTERNS"

record file_data =
  fd_path :: string
  fd_lines :: nat
  fd_content :: string

text \<open>The \<open>try\<close>/\<open>except\<close> of \<open>extract_files\<close> for one path the filter let through.\<close>

definition file_record :: "fsys \<Rightarrow> string \<Rightarrow> string \<Rightarrow> file_data" where
  "file_record fs directory file_path =
     (case fs_read_ignore fs file_path of
        Inr content \<Rightarrow>
          \<lparr>fd_path = relpath (fs_cwd fs) file_path directory, fd_lines = count_nl content + 1,
           fd_content = content\<rparr>
      | Inl e \<Rightarrow>
          \<lparr>fd_path = relpath (fs_cwd fs) file_path directory, fd_lines = 0,
           fd_content = ''ERROR: '' @ e\<rparr>)"

definition dot_ext :: "string \<Rightarrow> string" where
  "dot_ext ext = (if startswith ext ''.'' then ext else ''.'' @ ext)"

text \<open>The paths of \<open>extract_files\<close> that pass \<open>is_excluded\<close>, in the order met.\<close>

definition kept_paths :: "fsys \<Rightarrow> string \<Rightarrow> string list \<Rightarrow> string list" where
  "kept_paths fs directory file_extensions =
     concat (map (\<lambda>ext.
        filter (\<lambda>file_path. \<not> is_excluded file_path)
          (fs_glob fs (path_join (path_join directory ''**'') (''*'' @ dot_ext ext))))
        file_extensions)"

definition extract_files :: "fsys \<Rightarrow> string \<Rightarrow> string list \<Rightarrow> file_data list" where
  "extract_files fs directory file_extensions =
     (if \<not> fs_exists fs directory then []
      else sort_key fd_path (map (file_record fs directory) (kept_paths fs directory file_extensions)))"

text \<open>
  What \<open>main\<close> writes for the files found: the two totals of the summary, and one
  section per entry of \<open>files_data\<close> (each \<open>f.write\<close> is one string of the list).
\<close>

definition db_total_files :: "file_data list \<Rightarrow> nat" where
  "db_total_files files_data = length files_data"

definition db_total_lines :: "file_data list \<Rightarrow> nat" where
  "db_total_lines files_data = sum_list (map fd_lines files_data)"

definition db_sections :: "file_data list \<Rightarrow> string list list" where
  "db_sections files_data =
     map (\<lambda>(i, file).
        [replicate 59 CHR ''='' @ nl,
         ''FILE '' @ str_nat i @ '': '' @ fd_path file @ nl,
         replicate 59 CHR ''='' @ nl @ nl,
         fd_content file,
         nl @ nl @ nl])
       (enumerate 1 files_data)"

section \<open>extract\_auth.py\<close>

text \<open>The two lists fixed in \<open>extract_files_to_txt\<close>.\<close>

definition file_paths :: "string list" where
  "file_paths = [
     ''src/server/database/PostgreSQLIndexingStrategy.ts'',
     ''src/server/database/PostgreSQLConfig.ts'',
     ''src/server/database/seeds/02_users_seed.sql'',
     ''src/server/database/seeds/03_auth_roles_seed.sql'',
     ''src/server/database/models/auth/index.ts'',
     ''src/server/database/models/auth/PasswordResetToken.ts'',
     ''src/server/database/models/auth/Permission.ts'',
     ''src/server/database/models/auth/Role.ts'',
     ''src/server/database/models/auth/RolePermission.ts'',
     ''src/server/database/models/auth/Token.ts'',
     ''src/server/database/models/auth/User.ts'',
     ''src/server/database/models/auth/UserConnection.ts'',
     ''src/server/database/models/auth/UserPreferences.ts'',
     ''src/server/database/models/auth/UserProfile.ts'',
     ''src/server/database/models/auth/UserRole.ts'',
     ''src/server/database/repositories/auth/index.ts'',
     ''src/server/database/repositories/auth/PasswordResetTokenRepository.ts'',
     ''src/server/database/repositories/auth/PermissionRepository.ts'',
     ''src/server/database/repositories/auth/RolePermissionRepository.ts'',
     ''src/server/database/repositories/auth/RoleRepository.ts'',
     ''src/server/database/repositories/auth/TokenRepository.ts'',
     ''src/server/database/repositories/auth/UserConnectionRepository.ts'',
     ''src/server/database/repositories/auth/UserPreferencesRepository.ts'',
     ''src/server/repositories/auth/UserProfileRepository.ts'',
     ''src/server/database/repositories/auth/UserRepository.ts'',
     ''src/server/database/repositories/auth/UserRoleRepository.ts'',
     ''src/server/services/core/auth/AuthService.ts'',
     ''src/server/services/core/auth/EmailVerificationService.ts'',
     ''src/server/services/core/auth/index.ts'',
     ''src/server/services/core/auth/MFAService.ts'',
     ''src/server/services/core/auth/PasswordService.ts'',
     ''src/server/services/core/auth/RolePermissionService.ts'',
     ''src/server/services/core/auth/TokenService.ts'',
     ''src/server/services/core/auth/types.ts'']"

definition additional_patterns :: "string list" where
  "additional_patterns = [
     ''src/server/database/models/auth/*.ts'',
     ''src/server/database/repositories/auth/*.ts'',
     ''src/server/repositories/auth/*.ts'',
     ''src/server/services/core/auth/*.ts'',
     ''src/server/database/*.ts'']"

text \<open>
  The paths the patterns discover that the list does not hold, then the merged list:
  \<open>list(set(file_paths + additional_files))\<close>, sorted.
\<close>

definition additional_files :: "fsys \<Rightarrow> string \<Rightarrow> string list \<Rightarrow> string list \<Rightarrow> string list" where
  "additional_files fs root_dir paths patterns =
     concat (map (\<lambda>pattern.
        filter (\<lambda>rel_path. rel_path \<notin> set paths)
          (map (\<lambda>file_path. relpath (fs_cwd fs) file_path root_dir)
             (fs_glob fs (path_join root_dir pattern))))
        patterns)"

definition all_files :: "fsys \<Rightarrow> string \<Rightarrow> string list \<Rightarrow> string list \<Rightarrow> string list" where
  "all_files fs root_dir paths patterns =
     sort (remdups (paths @ additional_files fs root_dir paths patterns))"

text \<open>
  What the loop over \<open>all_files\<close> does, in order: a string written to the output file
  (one event per \<open>outf.write\<close>) or a path opened for reading. The state of the loop is
  the events so far and the two lists.
\<close>

datatype event = Write string | Open string

record extract_state =
  trace :: "event list"
  found_files :: "string list"
  not_found_files :: "string list"

fun written :: "event list \<Rightarrow> string list" where
  "written [] = []"
| "written (Write s # es) = s # written es"
| "written (Open p # es) = written es"

fun opened :: "event list \<Rightarrow> string list" where
  "opened [] = []"
| "opened (Write s # es) = opened es"
| "opened (Open p # es) = p # opened es"

definition file_header :: "string \<Rightarrow> event list" where
  "file_header file_path =
     [Write (nl @ nl @ replicate 80 CHR ''='' @ nl),
      Write (''FILE: '' @ file_path @ nl),
      Write (replicate 80 CHR ''='' @ nl @ nl)]"

definition error_marker :: "string \<Rightarrow> string" where
  "error_marker e = ''ERROR READING FILE: '' @ e @ nl"

text \<open>
  One turn of \<open>for file_path in all_files\<close>. \<open>full_path.exists()\<close> stands outside
  the \<open>try\<close>: when it raises, the exception leaves the turn, which has written
  nothing yet.
\<close>

definition process_path :: "fsys \<Rightarrow> string \<Rightarrow> string \<Rightarrow> extract_state \<Rightarrow> error + extract_state" where
  "process_path fs root_dir file_path st =
     (let full_path = path_div root_dir file_path in
      case path_exists fs full_path of
        Inl e \<Rightarrow> Inl e
      | Inr True \<Rightarrow>
          (case fs_read fs full_path of
              Inr content \<Rightarrow>
                Inr (st\<lparr>trace := trace st @ file_header file_path @ [Open full_path, Write content],
                        found_files := found_files st @ [file_path]\<rparr>)
            | Inl e \<Rightarrow>
                Inr (st\<lparr>trace := trace st @ file_header file_path @ [Open full_path, Write (error_marker e)],
                        not_found_files := not_found_files st @ [file_path]\<rparr>))
      | Inr False \<Rightarrow> Inr (st\<lparr>not_found_files := not_found_files st @ [file_path]\<rparr>))"

text \<open>
  The loop. An exception leaves it with the state reached: what has been written stays
  in the output file, which the \<open>with\<close> statement closes.
\<close>

fun process_paths ::
  "fsys \<Rightarrow> string \<Rightarrow> string list \<Rightarrow> extract_state \<Rightarrow> (error \<times> extract_state) + extract_state" where
  "process_paths fs root_dir [] st = Inr st"
| "process_paths fs root_dir (file_path # rest) st =
     (case process_path fs root_dir file_path st of
        Inl e \<Rightarrow> Inl (e, st)
      | Inr st' \<Rightarrow> process_paths fs root_dir rest st')"

definition report_header :: "string \<Rightarrow> string \<Rightarrow> event list" where
  "report_header root_dir now =
     map Write
       [''# AUTH CODE EXTRACT'' @ nl,
        ''# This file contains the combined code from all auth-related files in the project'' @ nl @ nl,
        ''# Generated from: '' @ root_dir @ nl,
        ''# Date: '' @ now @ nl @ nl]"

definition summary :: "nat \<Rightarrow> string list \<Rightarrow> string list \<Rightarrow> string list" where
  "summary n_all found not_found =
     [nl @ nl @ replicate 80 CHR ''='' @ nl,
      ''SUMMARY'' @ nl,
      replicate 80 CHR ''='' @ nl @ nl,
      ''Total files processed: '' @ str_nat n_all @ nl,
      ''Files found and extracted: '' @ str_nat (length found) @ nl,
      ''Files not found: '' @ str_nat (length not_found) @ nl]"

definition missing_list :: "string list \<Rightarrow> string list" where
  "missing_list not_found =
     (if not_found \<noteq> [] then (nl @ ''Missing files:'' @ nl) # map (\<lambda>file_path. ''- '' @ file_path @ nl) not_found
      else [])"

text \<open>
  \<open>extract_files_to_txt\<close> from the merged list on, for a root directory (the string of
  the script's \<open>root_dir\<close>), the two lists and the formatted time of the run; the
  script fixes the lists to \<open>file_paths\<close> and \<open>additional_patterns\<close>. \<open>Inr\<close> is
  a run that returns, with everything written; \<open>Inl\<close> is a run that an exception
  leaves, with what it had written and listed until then: the summary is not written.
\<close>

definition extract_files_to_txt_with ::
  "string list \<Rightarrow> string list \<Rightarrow> fsys \<Rightarrow> string \<Rightarrow> string \<Rightarrow> (error \<times> extract_state) + extract_state" where
  "extract_files_to_txt_with paths patterns fs root_dir now =
     (let fl = all_files fs root_dir paths patterns in
      case process_paths fs root_dir fl
             \<lparr>trace = report_header root_dir now, found_files = [], not_found_files = []\<rparr> of
        Inl (e, st) \<Rightarrow> Inl (e, st)
      | Inr st \<Rightarrow>
          Inr (st\<lparr>trace := trace st @
                     map Write (summary (length fl) (found_files st) (not_found_files st)
                                @ missing_list (not_found_files st))\<rparr>))"

definition extract_files_to_txt :: "fsys \<Rightarrow> string \<Rightarrow> string \<Rightarrow> (error \<times> extract_state) + extract_state" where
  "extract_files_to_txt fs root_dir now =
     extract_files_to_txt_with file_paths additional_patterns fs root_dir now"

section \<open>extract\_server.py\<close>

definition default_exclude_patterns :: "string list" where
  "default_exclude_patterns = [''__pycache__'', ''.git'', ''node_modules'']"

definition matches_any :: "string list \<Rightarrow> string \<Rightarrow> bool" where
  "matches_any exclude_patterns path = list_ex (\<lambda>pattern. str_in pattern path) exclude_patterns"

text \<open>\<open>result += ...\<close> over the entries: the first exception leaves the loop.\<close>

fun append_results :: "string \<Rightarrow> (error + string) list \<Rightarrow> error + string" where
  "append_results result [] = Inr result"
| "append_results result (Inl e # rs) = Inl e"
| "append_results result (Inr s # rs) = append_results (result @ s) rs"

text \<open>
  The entries of a directory that pass the filter of \<open>generate_directory_tree\<close>, sorted
  by name (\<open>entries.sort()\<close>); each name is carried with its node.
\<close>

definition srv_entries :: "string list \<Rightarrow> string \<Rightarrow> node list \<Rightarrow> node list" where
  "srv_entries exclude_patterns target_path cs =
     sort_key name
       (filter (\<lambda>e. \<not> matches_any exclude_patterns (path_join target_path (name e))) cs)"

lemma set_srv_entries:
  "set (srv_entries pats p cs) = {e \<in> set cs. \<not> matches_any pats (path_join p (name e))}"
  by (simp add: srv_entries_def)

lemma size_srv_entries_nth:
  "i < length (srv_entries pats p cs) \<Longrightarrow> size (srv_entries pats p cs ! i) < Suc (size_list size cs)"
proof -
  assume "i < length (srv_entries pats p cs)"
  then have "srv_entries pats p cs ! i \<in> set (srv_entries pats p cs)" by (rule nth_mem)
  then have "srv_entries pats p cs ! i \<in> set cs" by (simp add: set_srv_entries)
  then show ?thesis by (rule size_child)
qed

text \<open>The line of a path that is no directory, or turns out to be none.\<close>

definition leaf_line :: "string list \<Rightarrow> string \<Rightarrow> string \<Rightarrow> bool \<Rightarrow> string" where
  "leaf_line exclude_patterns target_path prefix is_last =
     (if matches_any exclude_patterns target_path then []
      else prefix @ (if is_last then corner else branch) @ basename target_path @ nl)"

text \<open>
  \<open>generate_directory_tree(base_path, target_path, prefix, is_last, exclude_patterns)\<close>
  of extract\_server.py, with the node that stands at \<open>target_path\<close>. \<open>base_path\<close>
  is used for \<open>rel_path\<close> alone, which is never read, so it is not a parameter here.
  \<open>os.listdir\<close> of a directory that cannot be listed raises, and nothing here catches
  it. The entries of a \<open>Locked\<close> directory are listed; \<open>os.path.isdir\<close> is false for
  each of them, so each gives its line and no more.
\<close>

function (sequential) srv_generate_directory_tree ::
  "string list \<Rightarrow> string \<Rightarrow> node \<Rightarrow> string \<Rightarrow> bool \<Rightarrow> error + string" where
  "srv_generate_directory_tree exclude_patterns target_path (File n r) prefix is_last =
     Inr (leaf_line exclude_patterns target_path prefix is_last)"
| "srv_generate_directory_tree exclude_patterns target_path (Link n t) prefix is_last =
     srv_generate_directory_tree exclude_patterns target_path t prefix is_last"
| "srv_generate_directory_tree exclude_patterns target_path (Locked n es) prefix is_last =
     (if matches_any exclude_patterns target_path then Inr []
      else Inr ((prefix @ (if is_last then corner else branch) @ basename target_path @ nl) @
                concat (map (\<lambda>(i, entry).
                    leaf_line exclude_patterns (path_join target_path (name entry))
                      (prefix @ (if is_last then blank else vertical))
                      (int i = int (length (srv_entries exclude_patterns target_path es)) - 1))
                  (enumerate 0 (srv_entries exclude_patterns target_path es)))))"
| "srv_generate_directory_tree exclude_patterns target_path (Dir n ok cs) prefix is_last =
     (if matches_any exclude_patterns target_path then Inr []
      else if \<not> ok then Inl (PermissionError target_path)
      else append_results
             (prefix @ (if is_last then corner else branch) @ basename target_path @ nl)
             (map (\<lambda>(i, entry).
                 srv_generate_directory_tree exclude_patterns (path_join target_path (name entry)) entry
                   (prefix @ (if is_last then blank else vertical))
                   (int i = int (length (srv_entries exclude_patterns target_path cs)) - 1))
               (enumerate 0 (srv_entries exclude_patterns target_path cs))))"
  by pat_completeness auto
termination
  by (relation "measure (\<lambda>(e, p, n, pr, l). size n)")
     (auto simp: in_set_enumerate_eq size_srv_entries_nth)

declare srv_generate_directory_tree.simps [simp del]

text \<open>\<open>count_lines_of_code\<close>: any exception gives 0.\<close>

definition count_lines_of_code :: "fsys \<Rightarrow> string \<Rightarrow> nat" where
  "count_lines_of_code fs file_path =
     (case fs_read fs file_path of Inr text \<Rightarrow> length (readlines text) | Inl e \<Rightarrow> 0)"

text \<open>
  \<open>extract_code\<close>: the sorted list of matching files, the total, the tree, and the
  strings written to the output file per file. \<open>Inr None\<close> is the early return for a
  target that is not a directory; \<open>Inl\<close> is an exception that leaves the function.
  The strict read of a file gives \<open>Inl\<close> with the exception's message; the message
  \<open>decode_error\<close> stands for \<open>UnicodeDecodeError\<close>.
\<close>

definition decode_error :: string where
  "decode_error = ''UnicodeDecodeError''"

definition srv_all_files :: "fsys \<Rightarrow> string \<Rightarrow> string list \<Rightarrow> string list" where
  "srv_all_files fs target_dir file_extensions =
     sort (concat (map (\<lambda>ext. fs_glob fs (path_join (path_join target_dir ''**'') (''*'' @ ext)))
                       file_extensions))"

definition srv_section :: "fsys \<Rightarrow> string \<Rightarrow> string \<Rightarrow> string list" where
  "srv_section fs base_dir file_path =
     [nl @ nl @ ''// ---------------------- '' @ relpath (fs_cwd fs) file_path base_dir @ '' ('' @
        str_nat (count_lines_of_code fs file_path) @ '' lines) ----------------------'' @ nl @ nl,
      (case fs_read fs file_path of
         Inr file_content \<Rightarrow> file_content
       | Inl e \<Rightarrow>
           if e = decode_error then ''// [File could not be decoded with UTF-8 encoding]'' @ nl
           else ''// [Error reading file: '' @ e @ '']'' @ nl)]"

record srv_report =
  sr_files :: "string list"
  sr_total_loc :: nat
  sr_dir_tree :: string
  sr_sections :: "string list list"

definition extract_code :: "fsys \<Rightarrow> string \<Rightarrow> string \<Rightarrow> string list \<Rightarrow> error + srv_report option" where
  "extract_code fs base_dir target_subfolder file_extensions =
     (let abs_base = abspath (fs_cwd fs) base_dir;
          target_dir = path_join abs_base target_subfolder
      in if \<not> fs_isdir fs target_dir then Inr None
         else (case fs_stat fs target_dir of
                 Found d \<Rightarrow>
                   (let fl = srv_all_files fs target_dir file_extensions;
                        total_loc = sum_list (map (count_lines_of_code fs) fl)
                    in case srv_generate_directory_tree default_exclude_patterns target_dir d [] True of
                         Inl e \<Rightarrow> Inl e
                       | Inr dir_tree \<Rightarrow>
                           Inr (Some \<lparr>sr_files = fl, sr_total_loc = total_loc, sr_dir_tree = dir_tree,
                                      sr_sections = map (srv_section fs abs_base) fl\<rparr>))
               | Missing \<Rightarrow> Inr None
               | Denied \<Rightarrow> Inr None))"

section \<open>Manifest mode (extract\_auth.py): what the loop computes\<close>

text \<open>
  A requested path is extracted when it exists under the root and its read succeeds.
  An existing path gets a section: the header, the read, then the content or the error
  marker.
\<close>

definition extracted :: "fsys \<Rightarrow> string \<Rightarrow> string \<Rightarrow> bool" where
  "extracted fs root_dir file_path =
     (path_exists fs (path_div root_dir file_path) = Inr True \<and>
      \<not> isl (fs_read fs (path_div root_dir file_path)))"

definition section_events :: "fsys \<Rightarrow> string \<Rightarrow> string \<Rightarrow> event list" where
  "section_events fs root_dir file_path =
     (if path_exists fs (path_div root_dir file_path) = Inr True
      then file_header file_path @
           [Open (path_div root_dir file_path),
            Write (case fs_read fs (path_div root_dir file_path) of
                     Inr content \<Rightarrow> content | Inl e \<Rightarrow> error_marker e)]
      else [])"

text \<open>
  A requested path is examined when \<open>Path.exists()\<close> returns for it, with either
  answer; otherwise the call raises and the run ends there.
\<close>

definition examined :: "fsys \<Rightarrow> string \<Rightarrow> string \<Rightarrow> bool" where
  "examined fs root_dir file_path = (\<not> isl (path_exists fs (path_div root_dir file_path)))"

lemma examined_iff:
  "examined fs root_dir file_path \<longleftrightarrow>
     path_exists fs (path_div root_dir file_path) = Inr True \<or>
     path_exists fs (path_div root_dir file_path) = Inr False"
  by (cases "path_exists fs (path_div root_dir file_path)") (auto simp: examined_def)

lemma process_path_eq:
  "examined fs root_dir p \<Longrightarrow>
   process_path fs root_dir p st =
     Inr (st\<lparr>trace := trace st @ section_events fs root_dir p,
             found_files := found_files st @ filter (extracted fs root_dir) [p],
             not_found_files := not_found_files st @ filter (\<lambda>q. \<not> extracted fs root_dir q) [p]\<rparr>)"
  by (auto simp: examined_iff process_path_def section_events_def extracted_def Let_def
           split: sum.splits bool.splits)

lemma process_path_raises:
  "\<not> examined fs root_dir p \<Longrightarrow>
   process_path fs root_dir p st = Inl (PermissionError (path_div root_dir p))"
  by (auto simp: examined_def process_path_def path_exists_def Let_def split: stat.splits)

lemma process_path_Inr: "process_path fs root_dir p st = Inr st' \<Longrightarrow> examined fs root_dir p"
  using process_path_raises [of fs root_dir p st] by (cases "examined fs root_dir p") auto

lemma process_paths_eq:
  "\<forall>p \<in> set ps. examined fs root_dir p \<Longrightarrow>
   process_paths fs root_dir ps st =
     Inr (st\<lparr>trace := trace st @ concat (map (section_events fs root_dir) ps),
             found_files := found_files st @ filter (extracted fs root_dir) ps,
             not_found_files := not_found_files st @ filter (\<lambda>q. \<not> extracted fs root_dir q) ps\<rparr>)"
proof (induction ps arbitrary: st)
  case Nil
  show ?case by simp
next
  case (Cons p ps)
  from Cons.prems have p: "examined fs root_dir p" and ps: "\<forall>q \<in> set ps. examined fs root_dir q"
    by simp_all
  show ?case
    by (simp add: process_path_eq [OF p] Cons.IH [OF ps])
qed

lemma process_paths_Inr:
  "process_paths fs root_dir ps st = Inr st' \<Longrightarrow> \<forall>p \<in> set ps. examined fs root_dir p"
proof (induction ps arbitrary: st)
  case Nil
  show ?case by simp
next
  case (Cons p ps)
  from Cons.prems obtain st1 where
    s1: "process_path fs root_dir p st = Inr st1" and
    s2: "process_paths fs root_dir ps st1 = Inr st'"
    by (auto split: sum.splits)
  from process_path_Inr [OF s1] Cons.IH [OF s2] show ?case by simp
qed

lemma distinct_all_files: "distinct (all_files fs root_dir paths patterns)"
  by (simp add: all_files_def)

lemma set_all_files:
  "set (all_files fs root_dir paths patterns) = set paths \<union> set (additional_files fs root_dir paths patterns)"
  by (simp add: all_files_def)

lemma sorted_all_files: "sorted (all_files fs root_dir paths patterns)"
  by (simp add: all_files_def)

lemma txt_result:
  assumes "extract_files_to_txt_with paths patterns fs root_dir now = Inr st"
  shows "st =
     \<lparr>trace = report_header root_dir now @
               concat (map (section_events fs root_dir) (all_files fs root_dir paths patterns)) @
               map Write
                 (summary (length (all_files fs root_dir paths patterns))
                    (filter (extracted fs root_dir) (all_files fs root_dir paths patterns))
                    (filter (\<lambda>q. \<not> extracted fs root_dir q) (all_files fs root_dir paths patterns)) @
                  missing_list (filter (\<lambda>q. \<not> extracted fs root_dir q) (all_files fs root_dir paths patterns))),
      found_files = filter (extracted fs root_dir) (all_files fs root_dir paths patterns),
      not_found_files = filter (\<lambda>q. \<not> extracted fs root_dir q) (all_files fs root_dir paths patterns)\<rparr>"
    and "\<forall>p \<in> set (all_files fs root_dir paths patterns). examined fs root_dir p"
proof -
  let ?fl = "all_files fs root_dir paths patterns"
  let ?st0 = "\<lparr>trace = report_header root_dir now, found_files = [], not_found_files = []\<rparr>"
  from assms obtain st1 where s1: "process_paths fs root_dir ?fl ?st0 = Inr st1"
    by (auto simp: extract_files_to_txt_with_def Let_def split: sum.splits)
  from process_paths_Inr [OF s1] show ex: "\<forall>p \<in> set ?fl. examined fs root_dir p" .
  from assms s1 show "st =
     \<lparr>trace = report_header root_dir now @
               concat (map (section_events fs root_dir) ?fl) @
               map Write
                 (summary (length ?fl)
                    (filter (extracted fs root_dir) ?fl)
                    (filter (\<lambda>q. \<not> extracted fs root_dir q) ?fl) @
                  missing_list (filter (\<lambda>q. \<not> extracted fs root_dir q) ?fl)),
      found_files = filter (extracted fs root_dir) ?fl,
      not_found_files = filter (\<lambda>q. \<not> extracted fs root_dir q) ?fl\<rparr>"
    using process_paths_eq [OF ex, of ?st0]
    by (auto simp: extract_files_to_txt_with_def Let_def)
qed

lemma txt_returns:
  assumes "\<forall>p \<in> set (all_files fs root_dir paths patterns). examined fs root_dir p"
  shows "\<exists>st. extract_files_to_txt_with paths patterns fs root_dir now = Inr st"
  by (simp add: extract_files_to_txt_with_def Let_def process_paths_eq [OF assms])

lemma written_append [simp]: "written (xs @ ys) = written xs @ written ys"
  by (induction xs rule: written.induct) auto

lemma written_map_Write [simp]: "written (map Write ss) = ss"
  by (induction ss) auto

lemma opened_append [simp]: "opened (xs @ ys) = opened xs @ opened ys"
  by (induction xs rule: opened.induct) auto

lemma opened_map_Write [simp]: "opened (map Write ss) = []"
  by (induction ss) auto

lemma opened_sections:
  "opened (concat (map (section_events fs root_dir) ps)) =
     map (path_div root_dir) (filter (\<lambda>p. path_exists fs (path_div root_dir p) = Inr True) ps)"
  by (induction ps) (auto simp: section_events_def file_header_def)

lemma in_concat_sections:
  "p \<in> set ps \<Longrightarrow>
   \<exists>before after. concat (map (section_events fs root_dir) ps) = before @ section_events fs root_dir p @ after"
proof (induction ps)
  case Nil
  then show ?case by simp
next
  case (Cons q qs)
  show ?case
  proof (cases "p = q")
    case True
    have "concat (map (section_events fs root_dir) (q # qs)) =
            [] @ section_events fs root_dir p @ concat (map (section_events fs root_dir) qs)"
      using True by simp
    then show ?thesis by blast
  next
    case False
    with Cons.prems have "p \<in> set qs" by simp
    from Cons.IH [OF this] obtain b a where
      "concat (map (section_events fs root_dir) qs) = b @ section_events fs root_dir p @ a" by blast
    then have "concat (map (section_events fs root_dir) (q # qs)) =
            (section_events fs root_dir q @ b) @ section_events fs root_dir p @ a"
      by simp
    then show ?thesis by blast
  qed
qed

lemma trace_has_section:
  assumes "extract_files_to_txt_with paths patterns fs root_dir now = Inr st"
    and "p \<in> set (all_files fs root_dir paths patterns)"
  shows "\<exists>before after. trace st = before @ section_events fs root_dir p @ after"
proof -
  from in_concat_sections [OF assms(2)] obtain b a where
    c: "concat (map (section_events fs root_dir) (all_files fs root_dir paths patterns)) =
          b @ section_events fs root_dir p @ a" by blast
  have "trace st =
          (report_header root_dir now @ b) @ section_events fs root_dir p @
          (a @ map Write
                 (summary (length (all_files fs root_dir paths patterns))
                    (filter (extracted fs root_dir) (all_files fs root_dir paths patterns))
                    (filter (\<lambda>q. \<not> extracted fs root_dir q) (all_files fs root_dir paths patterns)) @
                  missing_list (filter (\<lambda>q. \<not> extracted fs root_dir q) (all_files fs root_dir paths patterns))))"
    by (subst txt_result(1) [OF assms(1)]) (simp add: c)
  then show ?thesis by blast
qed

lemma opened_trace:
  assumes "extract_files_to_txt_with paths patterns fs root_dir now = Inr st"
  shows "opened (trace st) =
     map (path_div root_dir)
       (filter (\<lambda>p. path_exists fs (path_div root_dir p) = Inr True) (all_files fs root_dir paths patterns))"
  by (subst txt_result(1) [OF assms]) (simp add: opened_sections report_header_def)

lemma Open_in_set: "Open q \<in> set es \<longleftrightarrow> q \<in> set (opened es)"
  by (induction es rule: opened.induct) auto

lemma opened_exist:
  assumes "extract_files_to_txt_with paths patterns fs root_dir now = Inr st"
    and "Open q \<in> set (trace st)"
  shows "path_exists fs q = Inr True"
  using assms(2) by (auto simp: Open_in_set opened_trace [OF assms(1)])

text \<open>
  An example: \<open>a.ts\<close> exists and cannot be read, \<open>b.ts\<close> exists and can,
  \<open>c.ts\<close> does not exist.
\<close>

definition failing_example :: fsys where
  "failing_example =
     \<lparr>fs_cwd = ''/'',
      fs_stat = (\<lambda>p. if p = ''/r/a.ts'' then Found (File ''a.ts'' (Inl ''denied''))
                      else if p = ''/r/b.ts'' then Found (File ''b.ts'' (Inr ''x''))
                      else Missing),
      fs_glob = (\<lambda>pattern. []),
      fs_read = (\<lambda>p. if p = ''/r/b.ts'' then Inr ''x'' else Inl ''denied''),
      fs_read_ignore = (\<lambda>p. if p = ''/r/b.ts'' then Inr ''x'' else Inl ''denied'')\<rparr>"

lemma failing_example_returns:
  "extract_files_to_txt_with [''a.ts'', ''b.ts'', ''c.ts''] [] failing_example ''/r'' ''t'' =
     Inr (projr (extract_files_to_txt_with [''a.ts'', ''b.ts'', ''c.ts''] [] failing_example ''/r'' ''t''))"
  by code_simp

lemma failing_example_all:
  "all_files failing_example ''/r'' [''a.ts'', ''b.ts'', ''c.ts''] [] = [''a.ts'', ''b.ts'', ''c.ts'']"
  by code_simp

lemma failing_example_a:
  "path_exists failing_example (path_div ''/r'' ''a.ts'') = Inr True \<and>
   fs_read failing_example (path_div ''/r'' ''a.ts'') = Inl ''denied''"
  by code_simp

lemma failing_example_c:
  "path_exists failing_example (path_div ''/r'' ''c.ts'') = Inr False"
  by code_simp

text \<open>
  C4, as the specification states it, fails: a path that exists and whose read raises is
  appended to the not-found list, not to the found list. Here \<open>a.ts\<close> exists, its read
  raises, and the found list is \<open>b.ts\<close> alone while the not-found list holds \<open>a.ts\<close>
  and \<open>c.ts\<close>.
\<close>

theorem manifest_read_failure_counterexample:
  "path_exists failing_example (path_div ''/r'' ''a.ts'') = Inr True
   \<and> fs_read failing_example (path_div ''/r'' ''a.ts'') = Inl ''denied''
   \<and> all_files failing_example ''/r'' [''a.ts'', ''b.ts'', ''c.ts''] [] = [''a.ts'', ''b.ts'', ''c.ts'']
   \<and> extract_files_to_txt_with [''a.ts'', ''b.ts'', ''c.ts''] [] failing_example ''/r'' ''t'' =
       Inr \<lparr>trace =
              [Write ''# AUTH CODE EXTRACT\<newline>'',
               Write ''# This file contains the combined code from all auth-related files in the project\<newline>\<newline>'',
               Write ''# Generated from: /r\<newline>'',
               Write ''# Date: t\<newline>\<newline>'',
               Write (''\<newline>\<newline>'' @ replicate 80 CHR ''='' @ ''\<newline>''),
               Write ''FILE: a.ts\<newline>'',
               Write (replicate 80 CHR ''='' @ ''\<newline>\<newline>''),
               Open ''/r/a.ts'',
               Write ''ERROR READING FILE: denied\<newline>'',
               Write (''\<newline>\<newline>'' @ replicate 80 CHR ''='' @ ''\<newline>''),
               Write ''FILE: b.ts\<newline>'',
               Write (replicate 80 CHR ''='' @ ''\<newline>\<newline>''),
               Open ''/r/b.ts'',
               Write ''x'',
               Write (''\<newline>\<newline>'' @ replicate 80 CHR ''='' @ ''\<newline>''),
               Write ''SUMMARY\<newline>'',
               Write (replicate 80 CHR ''='' @ ''\<newline>\<newline>''),
               Write ''Total files processed: 3\<newline>'',
               Write ''Files found and extracted: 1\<newline>'',
               Write ''Files not found: 2\<newline>'',
               Write ''\<newline>Missing files:\<newline>'',
               Write ''- a.ts\<newline>'',
               Write ''- c.ts\<newline>''],
            found_files = [''b.ts''],
            not_found_files = [''a.ts'', ''c.ts'']\<rparr>"
  by code_simp

text \<open>
  C4, amended. For every requested path of a run that returns: \<open>Path.exists()\<close> gave
  an answer for it; when it exists and its read succeeds, it is in the found list only,
  and the three writes of its header, the read and the write of its content follow one
  another in the output; when it exists and its read raises, it is in the not-found list
  only, and the three writes of its header, the read and the write of the marker
  \<open>ERROR READING FILE:\<close> with the exception's text follow one another in the output;
  when it does not exist, it is in the not-found list only and it is never opened.
\<close>

theorem manifest_paths_handled:
  assumes "extract_files_to_txt_with paths patterns fs root_dir now = Inr st"
    and "p \<in> set (all_files fs root_dir paths patterns)"
  shows
  "(path_exists fs (path_div root_dir p) = Inr True \<or> path_exists fs (path_div root_dir p) = Inr False)
   \<and> (path_exists fs (path_div root_dir p) = Inr True \<and> fs_read fs (path_div root_dir p) = Inr content \<longrightarrow>
      p \<in> set (found_files st) \<and> p \<notin> set (not_found_files st) \<and>
      (\<exists>before after. trace st =
          before @
          [Write (''\<newline>\<newline>'' @ replicate 80 CHR ''='' @ ''\<newline>''),
           Write (''FILE: '' @ p @ ''\<newline>''),
           Write (replicate 80 CHR ''='' @ ''\<newline>\<newline>''),
           Open (path_div root_dir p),
           Write content] @ after))
   \<and> (path_exists fs (path_div root_dir p) = Inr True \<and> fs_read fs (path_div root_dir p) = Inl e \<longrightarrow>
      p \<in> set (not_found_files st) \<and> p \<notin> set (found_files st) \<and>
      (\<exists>before after. trace st =
          before @
          [Write (''\<newline>\<newline>'' @ replicate 80 CHR ''='' @ ''\<newline>''),
           Write (''FILE: '' @ p @ ''\<newline>''),
           Write (replicate 80 CHR ''='' @ ''\<newline>\<newline>''),
           Open (path_div root_dir p),
           Write (''ERROR READING FILE: '' @ e @ ''\<newline>'')] @ after))
   \<and> (path_exists fs (path_div root_dir p) = Inr False \<longrightarrow>
      p \<in> set (not_found_files st) \<and> p \<notin> set (found_files st) \<and>
      Open (path_div root_dir p) \<notin> set (trace st))"
proof -
  let ?full = "path_div root_dir p"
  let ?fl = "all_files fs root_dir paths patterns"
  have f: "found_files st = filter (extracted fs root_dir) ?fl"
    by (subst txt_result(1) [OF assms(1)]) simp
  have n: "not_found_files st = filter (\<lambda>q. \<not> extracted fs root_dir q) ?fl"
    by (subst txt_result(1) [OF assms(1)]) simp
  from txt_result(2) [OF assms(1)] assms(2) have "examined fs root_dir p" by blast
  then have ex: "path_exists fs ?full = Inr True \<or> path_exists fs ?full = Inr False"
    by (simp add: examined_iff)
  from trace_has_section [OF assms] obtain b a where
    t: "trace st = b @ section_events fs root_dir p @ a" by blast
  have ok: "path_exists fs ?full = Inr True \<and> fs_read fs ?full = Inr content \<longrightarrow>
      p \<in> set (found_files st) \<and> p \<notin> set (not_found_files st) \<and>
      (\<exists>before after. trace st =
          before @
          [Write (''\<newline>\<newline>'' @ replicate 80 CHR ''='' @ ''\<newline>''),
           Write (''FILE: '' @ p @ ''\<newline>''),
           Write (replicate 80 CHR ''='' @ ''\<newline>\<newline>''),
           Open ?full, Write content] @ after)"
  proof
    assume h: "path_exists fs ?full = Inr True \<and> fs_read fs ?full = Inr content"
    then have x: "extracted fs root_dir p" by (simp add: extracted_def)
    from h have "section_events fs root_dir p =
          [Write (''\<newline>\<newline>'' @ replicate 80 CHR ''='' @ ''\<newline>''),
           Write (''FILE: '' @ p @ ''\<newline>''),
           Write (replicate 80 CHR ''='' @ ''\<newline>\<newline>''),
           Open ?full, Write content]"
      by (simp add: section_events_def file_header_def nl_def)
    with t have "\<exists>before after. trace st =
          before @
          [Write (''\<newline>\<newline>'' @ replicate 80 CHR ''='' @ ''\<newline>''),
           Write (''FILE: '' @ p @ ''\<newline>''),
           Write (replicate 80 CHR ''='' @ ''\<newline>\<newline>''),
           Open ?full, Write content] @ after"
      by metis
    with x assms(2) show "p \<in> set (found_files st) \<and> p \<notin> set (not_found_files st) \<and>
      (\<exists>before after. trace st =
          before @
          [Write (''\<newline>\<newline>'' @ replicate 80 CHR ''='' @ ''\<newline>''),
           Write (''FILE: '' @ p @ ''\<newline>''),
           Write (replicate 80 CHR ''='' @ ''\<newline>\<newline>''),
           Open ?full, Write content] @ after)"
      unfolding f n by simp
  qed
  have bad: "path_exists fs ?full = Inr True \<and> fs_read fs ?full = Inl e \<longrightarrow>
      p \<in> set (not_found_files st) \<and> p \<notin> set (found_files st) \<and>
      (\<exists>before after. trace st =
          before @
          [Write (''\<newline>\<newline>'' @ replicate 80 CHR ''='' @ ''\<newline>''),
           Write (''FILE: '' @ p @ ''\<newline>''),
           Write (replicate 80 CHR ''='' @ ''\<newline>\<newline>''),
           Open ?full, Write (''ERROR READING FILE: '' @ e @ ''\<newline>'')] @ after)"
  proof
    assume h: "path_exists fs ?full = Inr True \<and> fs_read fs ?full = Inl e"
    then have x: "\<not> extracted fs root_dir p" by (simp add: extracted_def)
    from h have "section_events fs root_dir p =
          [Write (''\<newline>\<newline>'' @ replicate 80 CHR ''='' @ ''\<newline>''),
           Write (''FILE: '' @ p @ ''\<newline>''),
           Write (replicate 80 CHR ''='' @ ''\<newline>\<newline>''),
           Open ?full, Write (''ERROR READING FILE: '' @ e @ ''\<newline>'')]"
      by (simp add: section_events_def file_header_def error_marker_def nl_def)
    with t have "\<exists>before after. trace st =
          before @
          [Write (''\<newline>\<newline>'' @ replicate 80 CHR ''='' @ ''\<newline>''),
           Write (''FILE: '' @ p @ ''\<newline>''),
           Write (replicate 80 CHR ''='' @ ''\<newline>\<newline>''),
           Open ?full, Write (''ERROR READING FILE: '' @ e @ ''\<newline>'')] @ after"
      by metis
    with x assms(2) show "p \<in> set (not_found_files st) \<and> p \<notin> set (found_files st) \<and>
      (\<exists>before after. trace st =
          before @
          [Write (''\<newline>\<newline>'' @ replicate 80 CHR ''='' @ ''\<newline>''),
           Write (''FILE: '' @ p @ ''\<newline>''),
           Write (replicate 80 CHR ''='' @ ''\<newline>\<newline>''),
           Open ?full, Write (''ERROR READING FILE: '' @ e @ ''\<newline>'')] @ after)"
      unfolding f n by simp
  qed
  have absent: "path_exists fs ?full = Inr False \<longrightarrow>
      p \<in> set (not_found_files st) \<and> p \<notin> set (found_files st) \<and> Open ?full \<notin> set (trace st)"
  proof
    assume h: "path_exists fs ?full = Inr False"
    then have x: "\<not> extracted fs root_dir p" by (simp add: extracted_def)
    from h have "Open ?full \<notin> set (trace st)" using opened_exist [OF assms(1)] by fastforce
    with x assms(2) show "p \<in> set (not_found_files st) \<and> p \<notin> set (found_files st) \<and> Open ?full \<notin> set (trace st)"
      unfolding f n by simp
  qed
  from ex ok bad absent show ?thesis by (intro conjI)
qed

theorem manifest_paths_handled_witness:
  "''a.ts'' \<in> set (not_found_files (projr (extract_files_to_txt_with [''a.ts'', ''b.ts'', ''c.ts''] [] failing_example ''/r'' ''t'')))
   \<and> ''a.ts'' \<notin> set (found_files (projr (extract_files_to_txt_with [''a.ts'', ''b.ts'', ''c.ts''] [] failing_example ''/r'' ''t'')))
   \<and> (\<exists>before after.
        trace (projr (extract_files_to_txt_with [''a.ts'', ''b.ts'', ''c.ts''] [] failing_example ''/r'' ''t'')) =
          before @
          [Write (''\<newline>\<newline>'' @ replicate 80 CHR ''='' @ ''\<newline>''),
           Write (''FILE: '' @ ''a.ts'' @ ''\<newline>''),
           Write (replicate 80 CHR ''='' @ ''\<newline>\<newline>''),
           Open (path_div ''/r'' ''a.ts''),
           Write (''ERROR READING FILE: '' @ ''denied'' @ ''\<newline>'')] @ after)
   \<and> ''c.ts'' \<in> set (not_found_files (projr (extract_files_to_txt_with [''a.ts'', ''b.ts'', ''c.ts''] [] failing_example ''/r'' ''t'')))
   \<and> Open (path_div ''/r'' ''c.ts'') \<notin>
       set (trace (projr (extract_files_to_txt_with [''a.ts'', ''b.ts'', ''c.ts''] [] failing_example ''/r'' ''t'')))"
proof -
  have ma: "''a.ts'' \<in> set (all_files failing_example ''/r'' [''a.ts'', ''b.ts'', ''c.ts''] [])"
    by (simp add: failing_example_all)
  have mc: "''c.ts'' \<in> set (all_files failing_example ''/r'' [''a.ts'', ''b.ts'', ''c.ts''] [])"
    by (simp add: failing_example_all)
  from manifest_paths_handled [OF failing_example_returns ma, of "''x''" "''denied''"]
       manifest_paths_handled [OF failing_example_returns mc, of "''x''" "''denied''"]
       failing_example_a failing_example_c
  show ?thesis by blast
qed

text \<open>
  For a run that returns, the two lists partition the merged list, and the output ends
  with the summary, which states the three counts, and the list of the missing paths.
\<close>

lemma completed_run_partition:
  assumes "extract_files_to_txt_with paths patterns fs root_dir now = Inr st"
  shows "set (found_files st) \<union> set (not_found_files st) = set (all_files fs root_dir paths patterns)"
    and "set (found_files st) \<inter> set (not_found_files st) = {}"
    and "length (found_files st) + length (not_found_files st) = length (all_files fs root_dir paths patterns)"
    and "\<exists>before. written (trace st) =
           before @
           [''\<newline>\<newline>'' @ replicate 80 CHR ''='' @ ''\<newline>'',
            ''SUMMARY\<newline>'',
            replicate 80 CHR ''='' @ ''\<newline>\<newline>'',
            ''Total files processed: '' @ str_nat (length (all_files fs root_dir paths patterns)) @ ''\<newline>'',
            ''Files found and extracted: '' @ str_nat (length (found_files st)) @ ''\<newline>'',
            ''Files not found: '' @ str_nat (length (not_found_files st)) @ ''\<newline>''] @
           (if not_found_files st \<noteq> []
            then ''\<newline>Missing files:\<newline>'' #
                 map (\<lambda>file_path. ''- '' @ file_path @ ''\<newline>'') (not_found_files st)
            else [])"
proof -
  let ?fl = "all_files fs root_dir paths patterns"
  have f: "found_files st = filter (extracted fs root_dir) ?fl"
    by (subst txt_result(1) [OF assms]) simp
  have n: "not_found_files st = filter (\<lambda>q. \<not> extracted fs root_dir q) ?fl"
    by (subst txt_result(1) [OF assms]) simp
  show "set (found_files st) \<union> set (not_found_files st) = set ?fl"
    unfolding f n by auto
  show "set (found_files st) \<inter> set (not_found_files st) = {}"
    unfolding f n by auto
  show "length (found_files st) + length (not_found_files st) = length ?fl"
    unfolding f n by (rule sum_length_filter_compl)
  have "written (trace st) =
          (written (report_header root_dir now) @
           written (concat (map (section_events fs root_dir) ?fl))) @
          summary (length ?fl) (found_files st) (not_found_files st) @
          missing_list (not_found_files st)"
    unfolding f n by (subst txt_result(1) [OF assms]) simp
  then show "\<exists>before. written (trace st) =
           before @
           [''\<newline>\<newline>'' @ replicate 80 CHR ''='' @ ''\<newline>'',
            ''SUMMARY\<newline>'',
            replicate 80 CHR ''='' @ ''\<newline>\<newline>'',
            ''Total files processed: '' @ str_nat (length ?fl) @ ''\<newline>'',
            ''Files found and extracted: '' @ str_nat (length (found_files st)) @ ''\<newline>'',
            ''Files not found: '' @ str_nat (length (not_found_files st)) @ ''\<newline>''] @
           (if not_found_files st \<noteq> []
            then ''\<newline>Missing files:\<newline>'' #
                 map (\<lambda>file_path. ''- '' @ file_path @ ''\<newline>'') (not_found_files st)
            else [])"
    by (simp add: summary_def missing_list_def nl_def)
qed

text \<open>
  An example with the paths of the script: the directory
  \<open>src/server/database/models\<close> cannot be searched, so examining a path below it
  gives \<open>EACCES\<close>; \<open>PostgreSQLConfig.ts\<close> and \<open>types.ts\<close> exist and can be read;
  no other path exists and \<open>glob\<close> finds nothing more. The merged list is then the
  sorted list of the 34 paths of the script.
\<close>

definition locked_models_example :: fsys where
  "locked_models_example =
     \<lparr>fs_cwd = ''/'',
      fs_stat = (\<lambda>p. if startswith p ''/r/src/server/database/models/'' then Denied
                      else if p = ''/r/src/server/database/PostgreSQLConfig.ts''
                           then Found (File ''PostgreSQLConfig.ts'' (Inr ''x''))
                      else if p = ''/r/src/server/services/core/auth/types.ts''
                           then Found (File ''types.ts'' (Inr ''y''))
                      else Missing),
      fs_glob = (\<lambda>pattern. []),
      fs_read = (\<lambda>p. if p = ''/r/src/server/database/PostgreSQLConfig.ts'' then Inr ''x''
                      else if p = ''/r/src/server/services/core/auth/types.ts'' then Inr ''y''
                      else Inl ''denied''),
      fs_read_ignore = (\<lambda>p. Inl ''denied'')\<rparr>"

lemma sorted_file_paths:
  "sort (remdups file_paths) =
    [''src/server/database/PostgreSQLConfig.ts'',
     ''src/server/database/PostgreSQLIndexingStrategy.ts'',
     ''src/server/database/models/auth/PasswordResetToken.ts'',
     ''src/server/database/models/auth/Permission.ts'',
     ''src/server/database/models/auth/Role.ts'',
     ''src/server/database/models/auth/RolePermission.ts'',
     ''src/server/database/models/auth/Token.ts'',
     ''src/server/database/models/auth/User.ts'',
     ''src/server/database/models/auth/UserConnection.ts'',
     ''src/server/database/models/auth/UserPreferences.ts'',
     ''src/server/database/models/auth/UserProfile.ts'',
     ''src/server/database/models/auth/UserRole.ts'',
     ''src/server/database/models/auth/index.ts'',
     ''src/server/database/repositories/auth/PasswordResetTokenRepository.ts'',
     ''src/server/database/repositories/auth/PermissionRepository.ts'',
     ''src/server/database/repositories/auth/RolePermissionRepository.ts'',
     ''src/server/database/repositories/auth/RoleRepository.ts'',
     ''src/server/database/repositories/auth/TokenRepository.ts'',
     ''src/server/database/repositories/auth/UserConnectionRepository.ts'',
     ''src/server/database/repositories/auth/UserPreferencesRepository.ts'',
     ''src/server/database/repositories/auth/UserRepository.ts'',
     ''src/server/database/repositories/auth/UserRoleRepository.ts'',
     ''src/server/database/repositories/auth/index.ts'',
     ''src/server/database/seeds/02_users_seed.sql'',
     ''src/server/database/seeds/03_auth_roles_seed.sql'',
     ''src/server/repositories/auth/UserProfileRepository.ts'',
     ''src/server/services/core/auth/AuthService.ts'',
     ''src/server/services/core/auth/EmailVerificationService.ts'',
     ''src/server/services/core/auth/MFAService.ts'',
     ''src/server/services/core/auth/PasswordService.ts'',
     ''src/server/services/core/auth/RolePermissionService.ts'',
     ''src/server/services/core/auth/TokenService.ts'',
     ''src/server/services/core/auth/index.ts'',
     ''src/server/services/core/auth/types.ts'']"
  by code_simp

lemma all_files_fixed:
  assumes "fs_glob fs = (\<lambda>pattern. [])"
  shows "all_files fs root_dir file_paths additional_patterns =
    [''src/server/database/PostgreSQLConfig.ts'',
     ''src/server/database/PostgreSQLIndexingStrategy.ts'',
     ''src/server/database/models/auth/PasswordResetToken.ts'',
     ''src/server/database/models/auth/Permission.ts'',
     ''src/server/database/models/auth/Role.ts'',
     ''src/server/database/models/auth/RolePermission.ts'',
     ''src/server/database/models/auth/Token.ts'',
     ''src/server/database/models/auth/User.ts'',
     ''src/server/database/models/auth/UserConnection.ts'',
     ''src/server/database/models/auth/UserPreferences.ts'',
     ''src/server/database/models/auth/UserProfile.ts'',
     ''src/server/database/models/auth/UserRole.ts'',
     ''src/server/database/models/auth/index.ts'',
     ''src/server/database/repositories/auth/PasswordResetTokenRepository.ts'',
     ''src/server/database/repositories/auth/PermissionRepository.ts'',
     ''src/server/database/repositories/auth/RolePermissionRepository.ts'',
     ''src/server/database/repositories/auth/RoleRepository.ts'',
     ''src/server/database/repositories/auth/TokenRepository.ts'',
     ''src/server/database/repositories/auth/UserConnectionRepository.ts'',
     ''src/server/database/repositories/auth/UserPreferencesRepository.ts'',
     ''src/server/database/repositories/auth/UserRepository.ts'',
     ''src/server/database/repositories/auth/UserRoleRepository.ts'',
     ''src/server/database/repositories/auth/index.ts'',
     ''src/server/database/seeds/02_users_seed.sql'',
     ''src/server/database/seeds/03_auth_roles_seed.sql'',
     ''src/server/repositories/auth/UserProfileRepository.ts'',
     ''src/server/services/core/auth/AuthService.ts'',
     ''src/server/services/core/auth/EmailVerificationService.ts'',
     ''src/server/services/core/auth/MFAService.ts'',
     ''src/server/services/core/auth/PasswordService.ts'',
     ''src/server/services/core/auth/RolePermissionService.ts'',
     ''src/server/services/core/auth/TokenService.ts'',
     ''src/server/services/core/auth/index.ts'',
     ''src/server/services/core/auth/types.ts'']"
proof -
  have "additional_files fs root_dir file_paths additional_patterns = []"
    by (simp add: additional_files_def assms)
  then show ?thesis
    by (simp only: all_files_def append_Nil2 sorted_file_paths)
qed

lemma locked_models_example_glob: "fs_glob locked_models_example = (\<lambda>pattern. [])"
  by (simp add: locked_models_example_def)

text \<open>
  C3, evaluated at that example. The first path is read and found, the second is missing;
  for the third, \<open>full_path.exists()\<close> raises \<open>PermissionError\<close>: the call stands
  outside the \<open>try\<close> of the loop body, so the exception leaves \<open>extract_files_to_txt\<close>.
  The run ends with one path in the found list and one in the not-found list out of 34,
  the existing path \<open>types.ts\<close> is in neither list, and no summary is written.
\<close>

theorem aborted_run_evaluation:
  "extract_files_to_txt locked_models_example ''/r'' ''t'' =
     Inl (PermissionError ''/r/src/server/database/models/auth/PasswordResetToken.ts'',
          \<lparr>trace =
              [Write ''# AUTH CODE EXTRACT\<newline>'',
               Write ''# This file contains the combined code from all auth-related files in the project\<newline>\<newline>'',
               Write ''# Generated from: /r\<newline>'',
               Write ''# Date: t\<newline>\<newline>'',
               Write (''\<newline>\<newline>'' @ replicate 80 CHR ''='' @ ''\<newline>''),
               Write ''FILE: src/server/database/PostgreSQLConfig.ts\<newline>'',
               Write (replicate 80 CHR ''='' @ ''\<newline>\<newline>''),
               Open ''/r/src/server/database/PostgreSQLConfig.ts'',
               Write ''x''],
            found_files = [''src/server/database/PostgreSQLConfig.ts''],
            not_found_files = [''src/server/database/PostgreSQLIndexingStrategy.ts'']\<rparr>)
   \<and> length (all_files locked_models_example ''/r'' file_paths additional_patterns) = 34
   \<and> ''src/server/services/core/auth/types.ts'' \<in>
       set (all_files locked_models_example ''/r'' file_paths additional_patterns)"
  by (simp only: extract_files_to_txt_def extract_files_to_txt_with_def Let_def
        all_files_fixed [OF locked_models_example_glob], code_simp)

text \<open>
  A second example with the paths of the script: as before, but
  \<open>PostgreSQLConfig.ts\<close> exists and cannot be read, and
  \<open>PostgreSQLIndexingStrategy.ts\<close> exists and can.
\<close>

definition unreadable_config_example :: fsys where
  "unreadable_config_example =
     \<lparr>fs_cwd = ''/'',
      fs_stat = (\<lambda>p. if startswith p ''/r/src/server/database/models/'' then Denied
                      else if p = ''/r/src/server/database/PostgreSQLConfig.ts''
                           then Found (File ''PostgreSQLConfig.ts'' (Inl ''bad''))
                      else if p = ''/r/src/server/database/PostgreSQLIndexingStrategy.ts''
                           then Found (File ''PostgreSQLIndexingStrategy.ts'' (Inr ''x''))
                      else if p = ''/r/src/server/services/core/auth/types.ts''
                           then Found (File ''types.ts'' (Inr ''y''))
                      else Missing),
      fs_glob = (\<lambda>pattern. []),
      fs_read = (\<lambda>p. if p = ''/r/src/server/database/PostgreSQLIndexingStrategy.ts'' then Inr ''x''
                      else if p = ''/r/src/server/services/core/auth/types.ts'' then Inr ''y''
                      else Inl ''bad''),
      fs_read_ignore = (\<lambda>p. Inl ''bad'')\<rparr>"

lemma unreadable_config_example_glob: "fs_glob unreadable_config_example = (\<lambda>pattern. [])"
  by (simp add: unreadable_config_example_def)

text \<open>
  C10, evaluated at that example. The header of \<open>PostgreSQLConfig.ts\<close> is written
  before the read, and the marker after the read has failed, while the path goes to the
  not-found list: so far as the claim says. Then \<open>full_path.exists()\<close> raises for the
  third path, outside the \<open>try\<close>, and the run ends: two sections have been written,
  while three requested paths exist (\<open>os.path.exists\<close> is true for them).
\<close>

theorem aborted_sections_evaluation:
  "extract_files_to_txt unreadable_config_example ''/r'' ''t'' =
     Inl (PermissionError ''/r/src/server/database/models/auth/PasswordResetToken.ts'',
          \<lparr>trace =
              [Write ''# AUTH CODE EXTRACT\<newline>'',
               Write ''# This file contains the combined code from all auth-related files in the project\<newline>\<newline>'',
               Write ''# Generated from: /r\<newline>'',
               Write ''# Date: t\<newline>\<newline>'',
               Write (''\<newline>\<newline>'' @ replicate 80 CHR ''='' @ ''\<newline>''),
               Write ''FILE: src/server/database/PostgreSQLConfig.ts\<newline>'',
               Write (replicate 80 CHR ''='' @ ''\<newline>\<newline>''),
               Open ''/r/src/server/database/PostgreSQLConfig.ts'',
               Write ''ERROR READING FILE: bad\<newline>'',
               Write (''\<newline>\<newline>'' @ replicate 80 CHR ''='' @ ''\<newline>''),
               Write ''FILE: src/server/database/PostgreSQLIndexingStrategy.ts\<newline>'',
               Write (replicate 80 CHR ''='' @ ''\<newline>\<newline>''),
               Open ''/r/src/server/database/PostgreSQLIndexingStrategy.ts'',
               Write ''x''],
            found_files = [''src/server/database/PostgreSQLIndexingStrategy.ts''],
            not_found_files = [''src/server/database/PostgreSQLConfig.ts'']\<rparr>)
   \<and> filter (\<lambda>p. fs_exists unreadable_config_example (path_div ''/r'' p))
       (all_files unreadable_config_example ''/r'' file_paths additional_patterns) =
     [''src/server/database/PostgreSQLConfig.ts'',
      ''src/server/database/PostgreSQLIndexingStrategy.ts'',
      ''src/server/services/core/auth/types.ts'']"
  by (simp only: extract_files_to_txt_def extract_files_to_txt_with_def Let_def
        all_files_fixed [OF unreadable_config_example_glob], code_simp)

section \<open>Directory mode (extract\_code.py): what the walk computes\<close>

lemma concat_readlines [simp]: "concat (readlines t) = t"
  by (induction t) (auto split: list.splits)

text \<open>
  The files of a listing that \<open>process_file\<close> adds: those whose extension is in the set
  and whose read succeeds, with their text.
\<close>

definition read_ok :: "(string \<Rightarrow> string) \<Rightarrow> string set \<Rightarrow> node \<Rightarrow> (string \<times> string) list" where
  "read_ok lw exts f =
     (if lw (splitext_ext (name f)) \<in> exts
      then (case read_result f of Inl e \<Rightarrow> [] | Inr content \<Rightarrow> [(name f, content)])
      else [])"

text \<open>A file passes the extension filter, whatever its read gives.\<close>

definition matched :: "(string \<Rightarrow> string) \<Rightarrow> string set \<Rightarrow> node \<Rightarrow> bool" where
  "matched lw exts f = (lw (splitext_ext (name f)) \<in> exts)"

text \<open>
  The files of a whole walk that are added, in the order of the walk, each with its full
  path and its text; the section and the line count of such a file.
\<close>

definition included_files ::
  "(string \<Rightarrow> string) \<Rightarrow> string set \<Rightarrow> (string \<times> string list \<times> node list) list \<Rightarrow> (string \<times> string) list" where
  "included_files lw exts triples =
     concat (map (\<lambda>(root, dirs, files).
        map (\<lambda>(fname, content). (path_join root fname, content)) (concat (map (read_ok lw exts) files)))
       triples)"

definition section_of :: "string \<Rightarrow> string \<Rightarrow> string \<times> string \<Rightarrow> string" where
  "section_of cwd dir_path = (\<lambda>(file_path, content).
     file_section (relpath cwd file_path dir_path) (length (readlines content)) content)"

definition lines_of :: "string \<times> string \<Rightarrow> nat" where
  "lines_of = (\<lambda>(file_path, content). length (readlines content))"

lemma process_file_eq:
  "process_file lw exts cwd dir_path root a f =
     a\<lparr>code_content := code_content a @
          map (section_of cwd dir_path) (map (\<lambda>(fname, content). (path_join root fname, content)) (read_ok lw exts f)),
       total_files := total_files a + length (read_ok lw exts f),
       total_lines := total_lines a +
          sum_list (map lines_of (map (\<lambda>(fname, content). (path_join root fname, content)) (read_ok lw exts f)))\<rparr>"
  by (cases "read_result f") (simp_all add: process_file_def read_ok_def section_of_def lines_of_def)

lemma process_files_eq:
  "fold (\<lambda>f a'. process_file lw exts cwd dir_path root a' f) files a =
     a\<lparr>code_content := code_content a @
          map (section_of cwd dir_path) (map (\<lambda>(fname, content). (path_join root fname, content)) (concat (map (read_ok lw exts) files))),
       total_files := total_files a + length (concat (map (read_ok lw exts) files)),
       total_lines := total_lines a +
          sum_list (map lines_of (map (\<lambda>(fname, content). (path_join root fname, content)) (concat (map (read_ok lw exts) files))))\<rparr>"
proof (induction files arbitrary: a)
  case Nil
  show ?case by simp
next
  case (Cons f fs)
  show ?case
    by (simp add: Cons.IH process_file_eq [of lw exts cwd dir_path root a f] add.assoc)
qed

lemma process_walk_eq:
  "process_walk lw exts cwd dir_path a triples =
     a\<lparr>code_content := code_content a @ map (section_of cwd dir_path) (included_files lw exts triples),
       total_files := total_files a + length (included_files lw exts triples),
       total_lines := total_lines a + sum_list (map lines_of (included_files lw exts triples))\<rparr>"
proof (induction triples arbitrary: a)
  case Nil
  show ?case by (simp add: process_walk_def included_files_def)
next
  case (Cons t ts)
  obtain root dirs files where t: "t = (root, dirs, files)" by (cases t)
  have step: "process_walk lw exts cwd dir_path a (t # ts) =
          process_walk lw exts cwd dir_path (fold (\<lambda>f a'. process_file lw exts cwd dir_path root a' f) files a) ts"
    by (simp add: process_walk_def t)
  have inc: "included_files lw exts (t # ts) =
          map (\<lambda>(fname, content). (path_join root fname, content)) (concat (map (read_ok lw exts) files)) @
          included_files lw exts ts"
    by (simp add: included_files_def t)
  show ?case
    unfolding step Cons.IH process_files_eq inc
    by (simp add: add.assoc)
qed

lemma extract_code_result:
  "extract_code_for_directory_with lw exts excl fs base_dir target_dir =
     (case fs_stat fs (path_join base_dir target_dir) of
        Missing \<Rightarrow> Inr None
      | Denied \<Rightarrow> Inr None
      | Found d \<Rightarrow>
          (case generate_directory_tree lw d [] excl of
             Inl e \<Rightarrow> Inl e
           | Inr tree \<Rightarrow>
               if included_files lw exts (os_walk excl (path_join base_dir target_dir) d) = [] then Inr None
               else Inr (Some \<lparr>ci_content = concat (map (section_of (fs_cwd fs) (path_join base_dir target_dir))
                                    (included_files lw exts (os_walk excl (path_join base_dir target_dir) d))),
                     ci_total_files = length (included_files lw exts (os_walk excl (path_join base_dir target_dir) d)),
                     ci_total_lines = sum_list (map lines_of (included_files lw exts (os_walk excl (path_join base_dir target_dir) d))),
                     ci_tree = tree\<rparr>)))"
  by (simp add: extract_code_for_directory_with_def Let_def process_walk_eq split: stat.splits sum.splits)

lemma read_ok_unmatched: "\<not> matched lw exts f \<Longrightarrow> read_ok lw exts f = []"
  by (simp add: matched_def read_ok_def)

lemma included_files_unmatched:
  assumes "\<forall>(root, dirs, files) \<in> set triples. \<forall>f \<in> set files. \<not> matched lw exts f"
  shows "included_files lw exts triples = []"
  using assms by (fastforce simp: included_files_def read_ok_unmatched)

lemma fold_process_skip:
  "fold (\<lambda>f a'. process_file lw exts cwd dir_path root a' f) (before @ File fname (Inl e) # after) a =
   fold (\<lambda>f a'. process_file lw exts cwd dir_path root a' f) (before @ after) a"
proof -
  have r: "read_ok lw exts (File fname (Inl e)) = []"
    by (simp add: read_ok_def)
  show ?thesis
    unfolding process_files_eq by (simp add: r)
qed

text \<open>
  Examples, each a target directory \<open>/p/a\<close>: one whose only file cannot be read; one
  with a file that cannot be read and one that can; one that lists \<open>b.ts\<close> before
  \<open>a.ts\<close>. And, for extract\_db\_code.py, a directory where the pattern finds three
  paths, one of them under \<open>node_modules\<close> and one that cannot be read.
\<close>

definition tree_example :: "node \<Rightarrow> fsys" where
  "tree_example d =
     \<lparr>fs_cwd = ''/'',
      fs_stat = (\<lambda>p. if p = ''/p/a'' then Found d else Missing),
      fs_glob = (\<lambda>pattern. []),
      fs_read = (\<lambda>p. Inl ''No such file''),
      fs_read_ignore = (\<lambda>p. Inl ''No such file'')\<rparr>"

definition unreadable_example :: fsys where
  "unreadable_example = tree_example (Dir ''a'' True [File ''x.ts'' (Inl ''denied'')])"

definition mixed_example :: fsys where
  "mixed_example =
     tree_example (Dir ''a'' True [File ''a.ts'' (Inl ''denied''), File ''b.ts'' (Inr (''x'' @ nl))])"

definition listing_example :: fsys where
  "listing_example =
     tree_example (Dir ''a'' True [File ''b.ts'' (Inr (''x'' @ nl)), File ''a.ts'' (Inr (''y'' @ nl))])"

definition db_example :: fsys where
  "db_example =
     \<lparr>fs_cwd = ''/'',
      fs_stat = (\<lambda>p. if p = ''/db'' then Found (Dir ''db'' True []) else Missing),
      fs_glob = (\<lambda>pattern. if pattern = ''/db/**/*.ts''
                 then [''/db/b.ts'', ''/db/node_modules/m.ts'', ''/db/a.ts''] else []),
      fs_read = (\<lambda>p. if p = ''/db/b.ts'' then Inr (''x'' @ nl) else Inl ''denied''),
      fs_read_ignore = (\<lambda>p. if p = ''/db/b.ts'' then Inr (''x'' @ nl) else Inl ''denied'')\<rparr>"

lemma db_example_exists: "fs_exists db_example ''/db''"
  by code_simp

lemma db_example_kept: "kept_paths db_example ''/db'' [''.ts''] = [''/db/b.ts'', ''/db/a.ts'']"
  by code_simp

lemma db_example_read: "fs_read_ignore db_example ''/db/a.ts'' = Inl ''denied''"
  by code_simp

lemma unreadable_example_at:
  "fs_stat unreadable_example (path_join ''/p'' ''a'') = Found (Dir ''a'' True [File ''x.ts'' (Inl ''denied'')])"
  by code_simp

lemma unreadable_example_included:
  "included_files lower code_extensions
     (os_walk exclude_dirs (path_join ''/p'' ''a'') (Dir ''a'' True [File ''x.ts'' (Inl ''denied'')])) = []"
  by code_simp

lemma unreadable_example_returns:
  "extract_code_for_directory_with lower code_extensions exclude_dirs unreadable_example ''/p'' ''a'' =
     Inr (projr (extract_code_for_directory_with lower code_extensions exclude_dirs unreadable_example ''/p'' ''a''))"
  by code_simp

lemma length_extract_files:
  "fs_exists fs directory \<Longrightarrow>
   length (extract_files fs directory exts) = length (kept_paths fs directory exts)"
  by (simp add: extract_files_def)

lemma set_extract_files:
  "fs_exists fs directory \<Longrightarrow>
   set (extract_files fs directory exts) = file_record fs directory ` set (kept_paths fs directory exts)"
  by (simp add: extract_files_def)

text \<open>
  The tree is built before the walk and outside any \<open>try\<close>: when the target holds a
  directory that can be listed but not searched, \<open>x.is_dir()\<close> in the sort key raises
  there, and the exception leaves \<open>extract_code_for_directory\<close>.
\<close>

lemma unsearchable_directory_raises:
  "extract_code_for_directory
     (tree_example (Dir ''a'' True [Locked ''sub'' [File ''b.ts'' (Inr ''x'')]])) ''/p'' ''a'' =
   Inl (PermissionError ''b.ts'')"
  by code_simp

text \<open>
  C6, as the specification states it, fails: there is a third case. Here the target
  exists and its one file passes the filters, but its read raises, so no file is counted
  and the function returns \<open>None\<close>.
\<close>

theorem absent_signal_counterexample:
  "fs_stat unreadable_example (path_join ''/p'' ''a'') = Found (Dir ''a'' True [File ''x.ts'' (Inl ''denied'')])
   \<and> os_walk exclude_dirs (path_join ''/p'' ''a'') (Dir ''a'' True [File ''x.ts'' (Inl ''denied'')]) =
       [(''/p/a'', [], [File ''x.ts'' (Inl ''denied'')])]
   \<and> matched lower code_extensions (File ''x.ts'' (Inl ''denied''))
   \<and> extract_code_for_directory unreadable_example ''/p'' ''a'' = Inr None"
  by code_simp

text \<open>
  C6, amended. A target that does not exist under the base directory always gives
  \<open>None\<close>. Whenever \<open>extract_code_for_directory\<close> returns, it returns \<open>None\<close>
  exactly when the target does not exist, or no file that passed the extension and
  exclusion filters was read successfully; the second case holds in particular when zero
  files passed the filters.
\<close>

theorem absent_signal:
  "(\<not> fs_exists fs (path_join base_dir target_dir) \<longrightarrow>
      extract_code_for_directory_with lw exts excl fs base_dir target_dir = Inr None)
   \<and> (extract_code_for_directory_with lw exts excl fs base_dir target_dir = Inr r \<longrightarrow>
       (r = None \<longleftrightarrow>
          \<not> fs_exists fs (path_join base_dir target_dir) \<or>
          (\<exists>d. fs_stat fs (path_join base_dir target_dir) = Found d \<and>
               included_files lw exts (os_walk excl (path_join base_dir target_dir) d) = [])))
   \<and> (\<forall>d. extract_code_for_directory_with lw exts excl fs base_dir target_dir = Inr r \<and>
          fs_stat fs (path_join base_dir target_dir) = Found d \<and>
          (\<forall>(root, dirs, files) \<in> set (os_walk excl (path_join base_dir target_dir) d).
             \<forall>f \<in> set files. \<not> matched lw exts f) \<longrightarrow>
          r = None)"
proof -
  let ?dp = "path_join base_dir target_dir"
  let ?res = "extract_code_for_directory_with lw exts excl fs base_dir target_dir"
  have a: "\<not> fs_exists fs ?dp \<longrightarrow> ?res = Inr None"
    by (auto simp: extract_code_result fs_exists_def split: stat.splits)
  have b: "?res = Inr r \<longrightarrow>
       (r = None \<longleftrightarrow>
          \<not> fs_exists fs ?dp \<or>
          (\<exists>d. fs_stat fs ?dp = Found d \<and> included_files lw exts (os_walk excl ?dp d) = []))"
    by (auto simp: extract_code_result fs_exists_def split: stat.splits sum.splits if_splits)
  have c: "\<forall>d. ?res = Inr r \<and> fs_stat fs ?dp = Found d \<and>
          (\<forall>(root, dirs, files) \<in> set (os_walk excl ?dp d). \<forall>f \<in> set files. \<not> matched lw exts f) \<longrightarrow>
          r = None"
  proof (intro allI impI)
    fix d
    assume h: "?res = Inr r \<and> fs_stat fs ?dp = Found d \<and>
          (\<forall>(root, dirs, files) \<in> set (os_walk excl ?dp d). \<forall>f \<in> set files. \<not> matched lw exts f)"
    then have "included_files lw exts (os_walk excl ?dp d) = []"
      using included_files_unmatched by blast
    with h b show "r = None" by blast
  qed
  from a b c show ?thesis by (intro conjI)
qed

theorem absent_signal_witness:
  "projr (extract_code_for_directory_with lower code_extensions exclude_dirs unreadable_example ''/p'' ''a'') = None
   \<and> extract_code_for_directory_with lower code_extensions exclude_dirs unreadable_example ''/p'' ''b'' = Inr None"
proof -
  have n: "\<not> fs_exists unreadable_example (path_join ''/p'' ''b'')" by code_simp
  from absent_signal [of unreadable_example "''/p''" "''a''" lower code_extensions exclude_dirs
         "projr (extract_code_for_directory_with lower code_extensions exclude_dirs unreadable_example ''/p'' ''a'')"]
       absent_signal [of unreadable_example "''/p''" "''b''" lower code_extensions exclude_dirs]
       unreadable_example_at unreadable_example_included unreadable_example_returns n
  show ?thesis by blast
qed

text \<open>
  C2, evaluated at a directory whose listing gives \<open>b.ts\<close> before \<open>a.ts\<close>:
  \<open>extract_code_for_directory\<close> emits the section of \<open>b.ts\<close> first. The files are
  processed in the order \<open>os.walk\<close> lists them, not sorted by path.
\<close>

theorem listing_order_evaluation:
  "fs_stat listing_example (path_join ''/p'' ''a'') =
     Found (Dir ''a'' True [File ''b.ts'' (Inr (''x'' @ nl)), File ''a.ts'' (Inr (''y'' @ nl))])
   \<and> map_sum id (map_option ci_content) (extract_code_for_directory listing_example ''/p'' ''a'') =
     Inr (Some (file_section ''b.ts'' 1 (''x'' @ nl) @ file_section ''a.ts'' 1 (''y'' @ nl)))
   \<and> path_join ''/p/a'' ''a.ts'' < path_join ''/p/a'' ''b.ts''"
  by code_simp

text \<open>
  C5, as the specification states it, fails for \<open>extract_code_for_directory\<close>: the file
  \<open>a.ts\<close> passes the filter and its read raises; it gets no placeholder and is not
  counted. The report holds the section of \<open>b.ts\<close> alone, with a file count of 1.
\<close>

theorem read_failure_counterexample:
  "fs_stat mixed_example (path_join ''/p'' ''a'') =
     Found (Dir ''a'' True [File ''a.ts'' (Inl ''denied''), File ''b.ts'' (Inr (''x'' @ nl))])
   \<and> matched lower code_extensions (File ''a.ts'' (Inl ''denied''))
   \<and> extract_code_for_directory mixed_example ''/p'' ''a'' =
     Inr (Some \<lparr>ci_content = file_section ''b.ts'' 1 (''x'' @ nl),
                ci_total_files = 1, ci_total_lines = 1,
                ci_tree = [branch @ ''a.ts'', corner @ ''b.ts'']\<rparr>)"
  by code_simp

text \<open>
  C5, amended. In \<open>extract_code_for_directory\<close> a file whose read raises is skipped:
  the accumulators are unchanged, and the files listed with it give the sections and
  counts they give without it. In \<open>extract_files\<close> of extract\_db\_code.py a kept path
  whose read raises gets a record with line count 0 and the content \<open>ERROR:\<close> followed
  by the exception's text; every kept path gives one record, so the file is counted and
  the other records are not affected.
\<close>

theorem read_failure_degrades:
  "process_file lw exts cwd dir_path root a (File fname (Inl e)) = a
   \<and> fold (\<lambda>f a'. process_file lw exts cwd dir_path root a' f) (before @ File fname (Inl e) # after) a =
     fold (\<lambda>f a'. process_file lw exts cwd dir_path root a' f) (before @ after) a
   \<and> (fs_read_ignore fs file_path = Inl e \<longrightarrow>
        file_record fs directory file_path =
          \<lparr>fd_path = relpath (fs_cwd fs) file_path directory, fd_lines = 0, fd_content = ''ERROR: '' @ e\<rparr>)
   \<and> (fs_exists fs directory \<longrightarrow>
        length (extract_files fs directory file_extensions) =
          length (kept_paths fs directory file_extensions) \<and>
        set (extract_files fs directory file_extensions) =
          file_record fs directory ` set (kept_paths fs directory file_extensions))"
proof -
  have s: "process_file lw exts cwd dir_path root a (File fname (Inl e)) = a"
    by (simp add: process_file_def)
  have r: "fs_read_ignore fs file_path = Inl e \<longrightarrow>
        file_record fs directory file_path =
          \<lparr>fd_path = relpath (fs_cwd fs) file_path directory, fd_lines = 0, fd_content = ''ERROR: '' @ e\<rparr>"
    by (simp add: file_record_def)
  from s r fold_process_skip length_extract_files set_extract_files show ?thesis
    by blast
qed

theorem read_failure_degrades_witness:
  "file_record db_example ''/db'' ''/db/a.ts'' =
     \<lparr>fd_path = relpath (fs_cwd db_example) ''/db/a.ts'' ''/db'', fd_lines = 0, fd_content = ''ERROR: '' @ ''denied''\<rparr>
   \<and> length (extract_files db_example ''/db'' [''.ts'']) = 2
   \<and> file_record db_example ''/db'' ''/db/a.ts'' \<in> set (extract_files db_example ''/db'' [''.ts''])"
  using read_failure_degrades [where fs = db_example and file_path = "''/db/a.ts''" and e = "''denied''"
          and directory = "''/db''" and file_extensions = "[''.ts'']"]
        db_example_exists db_example_read
  by (simp add: db_example_kept)

section \<open>Line counts and totals\<close>

lemma readlines_Nil [simp]: "readlines t = [] \<longleftrightarrow> t = []"
  by (cases t) (auto split: list.splits)

lemma length_readlines:
  "length (readlines t) = count_nl t + (if t = [] \<or> last t = CHR 0x0A then 0 else 1)"
proof (induction t)
  case Nil
  show ?case by (simp add: count_nl_def)
next
  case (Cons c cs)
  show ?case
  proof (cases "c = CHR 0x0A")
    case True
    with Cons.IH show ?thesis by (auto simp: count_nl_def)
  next
    case False
    show ?thesis
    proof (cases "readlines cs")
      case Nil
      then have "cs = []" by simp
      with False show ?thesis by (simp add: count_nl_def)
    next
      case (Cons l ls)
      then have ne: "cs \<noteq> []" by auto
      from Cons False have "length (readlines (c # cs)) = length (readlines cs)" by simp
      with Cons.IH ne False show ?thesis by (simp add: count_nl_def)
    qed
  qed
qed

lemma extract_code_totals:
  "extract_code fs base_dir target_subfolder file_extensions = Inr (Some r) \<Longrightarrow>
   sr_total_loc r = sum_list (map (count_lines_of_code fs) (sr_files r)) \<and>
   length (sr_sections r) = length (sr_files r)"
  by (auto simp: extract_code_def Let_def split: stat.splits sum.splits if_splits)

lemma extract_code_for_directory_totals:
  "fs_stat fs (path_join base_dir target_dir) = Found d \<Longrightarrow>
   extract_code_for_directory_with lw exts excl fs base_dir target_dir = Inr (Some ci) \<Longrightarrow>
   ci_total_lines ci =
     sum_list (map lines_of (included_files lw exts (os_walk excl (path_join base_dir target_dir) d))) \<and>
   ci_total_files ci =
     length (included_files lw exts (os_walk excl (path_join base_dir target_dir) d)) \<and>
   ci_content ci =
     concat (map (section_of (fs_cwd fs) (path_join base_dir target_dir))
       (included_files lw exts (os_walk excl (path_join base_dir target_dir) d)))"
  by (auto simp: extract_code_result split: sum.splits if_splits)

text \<open>
  An example for the two counters: extract\_server.py reads \<open>one.ts\<close> with the text
  \<open>x\<close> (no newline at its end), extract\_db\_code.py reads \<open>one.ts\<close> with the text
  \<open>x\<close> and a newline; every other read raises.
\<close>

definition lines_example :: fsys where
  "lines_example =
     \<lparr>fs_cwd = ''/'',
      fs_stat = (\<lambda>p. if p = ''/s/src'' then Found (Dir ''src'' True [File ''one.ts'' (Inr ''x'')]) else Missing),
      fs_glob = (\<lambda>pattern. if pattern = ''/s/src/**/*.ts'' then [''/s/src/one.ts''] else []),
      fs_read = (\<lambda>p. if p = ''/s/src/one.ts'' then Inr ''x'' else Inl ''denied''),
      fs_read_ignore = (\<lambda>p. if p = ''/db/one.ts'' then Inr (''x'' @ nl) else Inl ''denied'')\<rparr>"

lemma lines_example_report:
  "extract_code lines_example ''/s'' ''src'' [''.ts''] =
     Inr (Some \<lparr>sr_files = [''/s/src/one.ts''], sr_total_loc = 1,
                sr_dir_tree = corner @ ''src'' @ nl @ blank @ corner @ ''one.ts'' @ nl,
                sr_sections = [srv_section lines_example ''/s'' ''/s/src/one.ts'']\<rparr>)"
  by code_simp

lemma lines_example_reads:
  "fs_read lines_example ''/s/src/one.ts'' = Inr ''x'' \<and>
   fs_read lines_example ''/s/src/none.ts'' = Inl ''denied'' \<and>
   fs_read_ignore lines_example ''/db/none.ts'' = Inl ''denied''"
  by code_simp

text \<open>
  C7, as the specification states it, fails. \<open>extract_files\<close> records
  \<open>content.count('\n') + 1\<close>: 2 for a text with one newline-terminated segment.
  \<open>count_lines_of_code\<close> counts a last segment without a newline as a line: 1 for a
  text with no newline-terminated segment.
\<close>

theorem line_count_counterexample:
  "fs_read_ignore lines_example ''/db/one.ts'' = Inr (''x'' @ nl)
   \<and> count_nl (''x'' @ nl) = 1
   \<and> fd_lines (file_record lines_example ''/db'' ''/db/one.ts'') = 2
   \<and> fs_read lines_example ''/s/src/one.ts'' = Inr ''x''
   \<and> count_nl ''x'' = 0
   \<and> count_lines_of_code lines_example ''/s/src/one.ts'' = 1"
  by code_simp

text \<open>
  C7, amended. For every file read successfully, the count of \<open>count_lines_of_code\<close>
  is the number of newline-terminated segments of its text, plus one when the text ends
  with a segment that is not newline-terminated; the count is 0 when the read fails, for
  \<open>count_lines_of_code\<close> and for \<open>extract_files\<close>. The total line count of a report
  is the sum of the per-file line counts and the total file count is the number of
  sections emitted, in extract\_db\_code.py, extract\_server.py and extract\_code.py.
\<close>

theorem line_counts:
  "(fs_read fs file_path = Inr content \<longrightarrow>
      count_lines_of_code fs file_path =
        count_nl content + (if content = [] \<or> last content = CHR 0x0A then 0 else 1))
   \<and> (fs_read fs file_path = Inl e \<longrightarrow> count_lines_of_code fs file_path = 0)
   \<and> (fs_read_ignore fs file_path = Inl e \<longrightarrow> fd_lines (file_record fs directory file_path) = 0)
   \<and> db_total_lines files_data = sum_list (map fd_lines files_data)
   \<and> db_total_files files_data = length (db_sections files_data)
   \<and> (extract_code fs base_dir target_subfolder file_extensions = Inr (Some r) \<longrightarrow>
        sr_total_loc r = sum_list (map (count_lines_of_code fs) (sr_files r)) \<and>
        length (sr_sections r) = length (sr_files r))
   \<and> (fs_stat nodes (path_join base target_dir) = Found d \<and>
      extract_code_for_directory_with lw exts excl nodes base target_dir = Inr (Some ci) \<longrightarrow>
        ci_total_lines ci =
          sum_list (map lines_of (included_files lw exts (os_walk excl (path_join base target_dir) d))) \<and>
        ci_total_files ci =
          length (included_files lw exts (os_walk excl (path_join base target_dir) d)) \<and>
        ci_content ci =
          concat (map (section_of (fs_cwd nodes) (path_join base target_dir))
            (included_files lw exts (os_walk excl (path_join base target_dir) d))))"
proof -
  have a: "fs_read fs file_path = Inr content \<longrightarrow>
      count_lines_of_code fs file_path =
        count_nl content + (if content = [] \<or> last content = CHR 0x0A then 0 else 1)"
    by (simp add: count_lines_of_code_def length_readlines)
  have b: "fs_read fs file_path = Inl e \<longrightarrow> count_lines_of_code fs file_path = 0"
    by (simp add: count_lines_of_code_def)
  have c: "fs_read_ignore fs file_path = Inl e \<longrightarrow> fd_lines (file_record fs directory file_path) = 0"
    by (simp add: file_record_def)
  have d: "db_total_lines files_data = sum_list (map fd_lines files_data)"
    by (simp add: db_total_lines_def)
  have f: "db_total_files files_data = length (db_sections files_data)"
    by (simp add: db_total_files_def db_sections_def)
  have g: "fs_stat nodes (path_join base target_dir) = Found d \<and>
      extract_code_for_directory_with lw exts excl nodes base target_dir = Inr (Some ci) \<longrightarrow>
        ci_total_lines ci =
          sum_list (map lines_of (included_files lw exts (os_walk excl (path_join base target_dir) d))) \<and>
        ci_total_files ci =
          length (included_files lw exts (os_walk excl (path_join base target_dir) d)) \<and>
        ci_content ci =
          concat (map (section_of (fs_cwd nodes) (path_join base target_dir))
            (included_files lw exts (os_walk excl (path_join base target_dir) d)))"
    using extract_code_for_directory_totals by blast
  have h: "extract_code fs base_dir target_subfolder file_extensions = Inr (Some r) \<longrightarrow>
        sr_total_loc r = sum_list (map (count_lines_of_code fs) (sr_files r)) \<and>
        length (sr_sections r) = length (sr_files r)"
    using extract_code_totals by blast
  from a b c d f g h show ?thesis by (intro conjI)
qed

theorem line_counts_witness:
  "count_lines_of_code lines_example ''/s/src/one.ts'' = 1
   \<and> count_lines_of_code lines_example ''/s/src/none.ts'' = 0
   \<and> fd_lines (file_record lines_example ''/db'' ''/db/none.ts'') = 0
   \<and> sr_total_loc \<lparr>sr_files = [''/s/src/one.ts''], sr_total_loc = 1,
                sr_dir_tree = corner @ ''src'' @ nl @ blank @ corner @ ''one.ts'' @ nl,
                sr_sections = [srv_section lines_example ''/s'' ''/s/src/one.ts'']\<rparr> =
       sum_list (map (count_lines_of_code lines_example) [''/s/src/one.ts''])
   \<and> ci_total_files (the (projr (extract_code_for_directory mixed_example ''/p'' ''a''))) =
       length (included_files lower code_extensions (os_walk exclude_dirs (path_join ''/p'' ''a'')
         (Dir ''a'' True [File ''a.ts'' (Inl ''denied''), File ''b.ts'' (Inr (''x'' @ nl))])))"
proof -
  have me: "fs_stat mixed_example (path_join ''/p'' ''a'') =
      Found (Dir ''a'' True [File ''a.ts'' (Inl ''denied''), File ''b.ts'' (Inr (''x'' @ nl))])"
    by code_simp
  have mr: "extract_code_for_directory_with lower code_extensions exclude_dirs mixed_example ''/p'' ''a'' =
      Inr (Some (the (projr (extract_code_for_directory mixed_example ''/p'' ''a''))))"
    by code_simp
  have dm: "ci_total_files (the (projr (extract_code_for_directory mixed_example ''/p'' ''a''))) =
       length (included_files lower code_extensions (os_walk exclude_dirs (path_join ''/p'' ''a'')
         (Dir ''a'' True [File ''a.ts'' (Inl ''denied''), File ''b.ts'' (Inr (''x'' @ nl))])))"
    using line_counts [where nodes = mixed_example and base = "''/p''" and target_dir = "''a''"
          and lw = lower and exts = code_extensions and excl = exclude_dirs
          and d = "Dir ''a'' True [File ''a.ts'' (Inl ''denied''), File ''b.ts'' (Inr (''x'' @ nl))]"
          and ci = "the (projr (extract_code_for_directory mixed_example ''/p'' ''a''))"
          and files_data = "[]" and fs = lines_example and file_path = "''/s/src/none.ts''"
          and e = "''denied''"]
        me mr
    by blast
  let ?r = "\<lparr>sr_files = [''/s/src/one.ts''], sr_total_loc = 1,
                sr_dir_tree = corner @ ''src'' @ nl @ blank @ corner @ ''one.ts'' @ nl,
                sr_sections = [srv_section lines_example ''/s'' ''/s/src/one.ts'']\<rparr>"
  have one: "count_lines_of_code lines_example ''/s/src/one.ts'' =
               count_nl ''x'' + (if ''x'' = [] \<or> last ''x'' = CHR 0x0A then 0 else 1)"
    and tot: "sr_total_loc ?r = sum_list (map (count_lines_of_code lines_example) (sr_files ?r))"
    using line_counts [where fs = lines_example and file_path = "''/s/src/one.ts''" and content = "''x''"
          and base_dir = "''/s''" and target_subfolder = "''src''" and file_extensions = "[''.ts'']"
          and r = ?r and files_data = "[]" and e = "''denied''" and directory = "''/db''"]
        lines_example_report lines_example_reads
    by blast+
  have none: "count_lines_of_code lines_example ''/s/src/none.ts'' = 0"
    using line_counts [where fs = lines_example and file_path = "''/s/src/none.ts''" and e = "''denied''"
          and files_data = "[]"]
        lines_example_reads
    by blast
  have db: "fd_lines (file_record lines_example ''/db'' ''/db/none.ts'') = 0"
    using line_counts [where fs = lines_example and file_path = "''/db/none.ts''" and e = "''denied''"
          and directory = "''/db''" and files_data = "[]"]
        lines_example_reads
    by blast
  from one have one': "count_lines_of_code lines_example ''/s/src/one.ts'' = 1"
    by (simp add: count_nl_def)
  from one' none db tot dm show ?thesis by simp
qed

section \<open>The tree diagrams\<close>

text \<open>
  C8, evaluated at a directory with the two subdirectories \<open>api\<close> (holding
  \<open>b.ts\<close>) and \<open>node_modules\<close>. \<open>generate_directory_tree\<close> of extract\_code.py
  sorts all items, then skips the excluded ones inside the loop, and compares the index
  with the length of the unfiltered list: \<open>api\<close>, the last entry that remains, gets
  the branch marker and its child the vertical continuation. \<open>generate_directory_tree\<close>
  of extract\_server.py filters first: there \<open>api\<close> gets the corner marker and its
  child the blank continuation.
\<close>

theorem last_marker_evaluation:
  "generate_directory_tree lower
     (Dir ''src'' True [Dir ''api'' True [File ''b.ts'' (Inr ''x'')], Dir ''node_modules'' True []])
     [] exclude_dirs =
     Inr [branch @ ''api'', vertical @ corner @ ''b.ts'']
   \<and> srv_generate_directory_tree default_exclude_patterns ''/p/src''
     (Dir ''src'' True [Dir ''api'' True [File ''b.ts'' (Inr ''x'')], Dir ''node_modules'' True []])
     [] True =
     Inr (corner @ ''src'' @ nl @ blank @ corner @ ''api'' @ nl @ blank @ blank @ corner @ ''b.ts'' @ nl)"
  by code_simp

text \<open>
  An example with a subdirectory that cannot be listed.
\<close>

definition locked_example :: fsys where
  "locked_example =
     \<lparr>fs_cwd = ''/'',
      fs_stat = (\<lambda>p. if p = ''/p/src''
                      then Found (Dir ''src'' True [Dir ''api'' False [], File ''b.ts'' (Inr ''x'')])
                      else Missing),
      fs_glob = (\<lambda>pattern. if pattern = ''/p/src/**/*.ts'' then [''/p/src/b.ts''] else []),
      fs_read = (\<lambda>p. if p = ''/p/src/b.ts'' then Inr ''x'' else Inl ''denied''),
      fs_read_ignore = (\<lambda>p. if p = ''/p/src/b.ts'' then Inr ''x'' else Inl ''denied'')\<rparr>"

text \<open>
  C9, evaluated at a directory with a subdirectory that cannot be listed.
  \<open>generate_directory_tree\<close> of extract\_server.py raises, and \<open>extract_code\<close> with
  it; \<open>generate_directory_tree\<close> of extract\_code.py gives the entry no children and
  goes on with the next one.
\<close>

theorem unreadable_directory_evaluation:
  "srv_generate_directory_tree default_exclude_patterns ''/p/src''
     (Dir ''src'' True [Dir ''api'' False [], File ''b.ts'' (Inr ''x'')]) [] True =
     Inl (PermissionError ''/p/src/api'')
   \<and> extract_code locked_example ''/p'' ''src'' [''.ts''] = Inl (PermissionError ''/p/src/api'')
   \<and> generate_directory_tree lower (Dir ''src'' True [Dir ''api'' False [], File ''b.ts'' (Inr ''x'')]) [] exclude_dirs =
     Inr [branch @ ''api'', corner @ ''b.ts'']"
  by code_simp

section \<open>Exclusion\<close>

text \<open>
  A tree in which every excluded directory below the top has been emptied: an entry
  whose name is excluded keeps its name and kind and loses what is under it. A link is
  emptied through: it keeps its name and leads to the emptied target.
\<close>

fun emptied :: "node \<Rightarrow> node" where
  "emptied (File n r) = File n r"
| "emptied (Dir n ok cs) = Dir n ok []"
| "emptied (Locked n es) = Locked n []"
| "emptied (Link n t) = Link n (emptied t)"

fun hollow :: "string set \<Rightarrow> node \<Rightarrow> node" where
  "hollow excl (File n r) = File n r"
| "hollow excl (Dir n ok cs) =
     Dir n ok (map (\<lambda>c. if name c \<in> excl then emptied c else hollow excl c) cs)"
| "hollow excl (Locked n es) =
     Locked n (map (\<lambda>c. if name c \<in> excl then emptied c else hollow excl c) es)"
| "hollow excl (Link n t) = Link n (hollow excl t)"





lemma name_emptied [simp]: "name (emptied c) = name c"
  by (cases c) auto

lemma is_dir_emptied [simp]: "is_dir (emptied c) = is_dir c"
  by (induction c) auto

lemma is_link_emptied [simp]: "is_link (emptied c) = is_link c"
  by (cases c) auto

lemma listed_dir_emptied [simp]: "listed_dir (emptied c) = listed_dir c"
  by (cases c) auto

lemma name_hollow [simp]: "name (hollow excl c) = name c"
  by (cases c) auto

lemma is_dir_hollow [simp]: "is_dir (hollow excl c) = is_dir c"
  by (induction c) auto

lemma is_link_hollow [simp]: "is_link (hollow excl c) = is_link c"
  by (cases c) auto

lemma listed_dir_hollow [simp]: "listed_dir (hollow excl c) = listed_dir c"
  by (cases c) auto

lemma hollow_file [simp]: "\<not> is_dir c \<Longrightarrow> hollow excl c = c"
  by (induction c) auto

lemma emptied_file [simp]: "\<not> is_dir c \<Longrightarrow> emptied c = c"
  by (induction c) auto

lemma denied_emptied [simp]: "denied (emptied c) = denied c"
  by (simp add: denied_def)

lemma denied_hollow [simp]: "denied (hollow excl c) = denied c"
  by (simp add: denied_def)












lemma read_result_denied [simp]: "read_result (denied c) = Inl ''Permission denied''"
  by (simp add: denied_def)















end
